theory Spec2Isabelle
  imports Complex_Main "HOL-Library.Word"
begin

section \<open>The intro\_runtime application: scene, shader binding table, accumulation loop\<close>

text \<open>
  A shallow embedding of the parts of \<^verbatim>\<open>apps/intro_runtime/src/Application.cpp\<close> that
  build the instance list and the light list, populate and update the shader binding table
  (SBT), convert the GUI materials, load the device code and drive the accumulation loop.

  Conventions of the embedding:
  \<^item> \<^verbatim>\<open>std::vector\<close> is a list; its \<^verbatim>\<open>size()\<close> is \<open>length\<close>.
  \<^item> \<^verbatim>\<open>unsigned int\<close> is \<open>32 word\<close>; device pointers and handles are \<open>64 word\<close>.
  \<^item> \<^verbatim>\<open>int\<close> is \<open>int\<close>; where the source's arithmetic can leave the 32-bit range or
    an index can leave a vector, the model returns an error instead of a state.
  \<^item> \<^verbatim>\<open>float\<close> and \<^verbatim>\<open>double\<close> are \<open>real\<close> where every value involved is exact
    (transforms, the light's frame, the timer). The absorption coefficient, whose
    computation rounds and can overflow, is a single-precision result with infinities
    and NaN.
  \<^item> Calls into CUDA, OptiX and OpenGL are recorded in a log of device calls; the values
    they return (device pointers, handles, packed headers, the timer, the camera) are
    inputs of the model.
\<close>

subsection \<open>Vectors of three floats\<close>

datatype float3 = Float3 (f3_x: real) (f3_y: real) (f3_z: real)

definition make_float3 :: "real \<Rightarrow> real \<Rightarrow> real \<Rightarrow> float3" where
  "make_float3 a b c = Float3 a b c"

text \<open>\<^verbatim>\<open>make_float3(s)\<close> with one argument sets all three channels.\<close>

definition make_float3_1 :: "real \<Rightarrow> float3" where
  "make_float3_1 s = Float3 s s s"

text \<open>
  Modelled from the spec: \<^verbatim>\<open>cross\<close>, \<^verbatim>\<open>length\<close> and the operators of
  \<^verbatim>\<open>shaders/vector_math.h\<close> are not part of the sources. The spec's Scenario B reads the
  area as \<open>|vecU \<times> vecV|\<close>: the cross product and the Euclidean length.
\<close>

definition cross :: "float3 \<Rightarrow> float3 \<Rightarrow> float3" where
  "cross a b = Float3 (f3_y a * f3_z b - f3_z a * f3_y b)
                      (f3_z a * f3_x b - f3_x a * f3_z b)
                      (f3_x a * f3_y b - f3_y a * f3_x b)"

definition length_f3 :: "float3 \<Rightarrow> real" where
  "length_f3 v = sqrt (f3_x v * f3_x v + f3_y v * f3_y v + f3_z v * f3_z v)"

definition div_f3 :: "float3 \<Rightarrow> real \<Rightarrow> float3" where
  "div_f3 v s = Float3 (f3_x v / s) (f3_y v / s) (f3_z v / s)"

subsection \<open>Single-precision results\<close>

text \<open>
  The result of a \<^verbatim>\<open>float\<close> operation: a finite value, an infinity or NaN. A finite
  operand is a real (the GUI's colours and scales are finite values). An exact result is
  rounded to the nearest value with 24 significant bits, ties to the even one, on an
  exponent range open above and closed at \<open>-126\<close> below (the subnormal numbers); a rounded
  value beyond the largest \<^verbatim>\<open>float\<close> is an infinity.
\<close>

datatype float32 = Finite real | PlusInfinity | MinusInfinity | NaN

definition FLT_MAX :: real where
  "FLT_MAX = (2 ^ 24 - 1) * 2 ^ 104"

definition float_ulp :: "real \<Rightarrow> real" where
  "float_ulp x = 2 powr (of_int (max \<lfloor>log 2 \<bar>x\<bar>\<rfloor> (- 126)) - 23)"

definition round_even :: "real \<Rightarrow> int" where
  "round_even y =
     (let f = \<lfloor>y\<rfloor>
      in if y - of_int f < 1/2 then f
         else if 1/2 < y - of_int f then f + 1
         else if even f then f else f + 1)"

definition round_to_float :: "real \<Rightarrow> real" where
  "round_to_float x =
     (if x = 0 then 0 else of_int (round_even (x / float_ulp x)) * float_ulp x)"

definition to_float32 :: "real \<Rightarrow> float32" where
  "to_float32 x =
     (let r = round_to_float x
      in if FLT_MAX < r then PlusInfinity
         else if r < - FLT_MAX then MinusInfinity
         else Finite r)"

fun neg_f32 :: "float32 \<Rightarrow> float32" where
  "neg_f32 (Finite a) = Finite (- a)"
| "neg_f32 PlusInfinity = MinusInfinity"
| "neg_f32 MinusInfinity = PlusInfinity"
| "neg_f32 NaN = NaN"

text \<open>The product of a result and a finite scale.\<close>

fun mul_f32 :: "float32 \<Rightarrow> real \<Rightarrow> float32" where
  "mul_f32 (Finite a) s = to_float32 (a * s)"
| "mul_f32 PlusInfinity s =
     (if 0 < s then PlusInfinity else if s < 0 then MinusInfinity else NaN)"
| "mul_f32 MinusInfinity s =
     (if 0 < s then MinusInfinity else if s < 0 then PlusInfinity else NaN)"
| "mul_f32 NaN s = NaN"

text \<open>
  Modelled from the spec: \<^verbatim>\<open>logf\<close> is the C library's, not part of the sources. The spec
  reads the absorption as \<open>-ln(color) * scale\<close>: the natural logarithm, here rounded to
  the nearest \<^verbatim>\<open>float\<close>; at zero it is minus infinity (the comment of line 1482), below
  zero NaN.
\<close>

definition logf :: "real \<Rightarrow> float32" where
  "logf c = (if 0 < c then to_float32 (ln c) else if c = 0 then MinusInfinity else NaN)"

datatype float3_ieee = Float3_ieee (ieee_x: float32) (ieee_y: float32) (ieee_z: float32)

definition mul_f3_ieee :: "float3_ieee \<Rightarrow> real \<Rightarrow> float3_ieee" where
  "mul_f3_ieee v s = Float3_ieee (mul_f32 (ieee_x v) s) (mul_f32 (ieee_y v) s) (mul_f32 (ieee_z v) s)"

subsection \<open>Enumerations and constants\<close>

text \<open>
  \<^verbatim>\<open>MY_ASSERT(NUM_RAYTYPES == 2)\<close> (line 2040) fixes the ray-type count; the radiance
  record of an instance is the first of its pair, the shadow record the second.
\<close>

definition NUM_RAYTYPES :: nat where
  "NUM_RAYTYPES = 2"

text \<open>
  Modelled from the spec: the enum \<^verbatim>\<open>ProgramIdentifier\<close> of \<^verbatim>\<open>inc/Application.h\<close> is
  not part of the sources. The spec's catalog is raygen, exception, miss \<open>\<times>\<close> 2, hit
  \<open>\<times>\<close> 4 and the callables; \<^verbatim>\<open>initPipeline\<close> fills one description per identifier in this
  order (lines 1801--1948) and says that the callables are at the end of the enum, from
  \<^verbatim>\<open>PROGRAM_ID_LENS_PINHOLE\<close> to \<^verbatim>\<open>PROGRAM_ID_BSDF_SPECULAR_EVAL\<close>.
\<close>

datatype ProgramIdentifier =
    PROGRAM_ID_RAYGENERATION
  | PROGRAM_ID_EXCEPTION
  | PROGRAM_ID_MISS_RADIANCE
  | PROGRAM_ID_MISS_SHADOW
  | PROGRAM_ID_HIT_RADIANCE
  | PROGRAM_ID_HIT_SHADOW
  | PROGRAM_ID_HIT_RADIANCE_CUTOUT
  | PROGRAM_ID_HIT_SHADOW_CUTOUT
  | PROGRAM_ID_LENS_PINHOLE
  | PROGRAM_ID_LENS_FISHEYE
  | PROGRAM_ID_LENS_SPHERE
  | PROGRAM_ID_LIGHT_ENV
  | PROGRAM_ID_LIGHT_PARALLELOGRAM
  | PROGRAM_ID_BRDF_DIFFUSE_SAMPLE
  | PROGRAM_ID_BRDF_DIFFUSE_EVAL
  | PROGRAM_ID_BRDF_SPECULAR_SAMPLE
  | PROGRAM_ID_BRDF_SPECULAR_EVAL
  | PROGRAM_ID_BSDF_SPECULAR_SAMPLE
  | PROGRAM_ID_BSDF_SPECULAR_EVAL

definition program_identifiers :: "ProgramIdentifier list" where
  "program_identifiers =
     [PROGRAM_ID_RAYGENERATION, PROGRAM_ID_EXCEPTION, PROGRAM_ID_MISS_RADIANCE,
      PROGRAM_ID_MISS_SHADOW, PROGRAM_ID_HIT_RADIANCE, PROGRAM_ID_HIT_SHADOW,
      PROGRAM_ID_HIT_RADIANCE_CUTOUT, PROGRAM_ID_HIT_SHADOW_CUTOUT, PROGRAM_ID_LENS_PINHOLE,
      PROGRAM_ID_LENS_FISHEYE, PROGRAM_ID_LENS_SPHERE, PROGRAM_ID_LIGHT_ENV,
      PROGRAM_ID_LIGHT_PARALLELOGRAM, PROGRAM_ID_BRDF_DIFFUSE_SAMPLE,
      PROGRAM_ID_BRDF_DIFFUSE_EVAL, PROGRAM_ID_BRDF_SPECULAR_SAMPLE,
      PROGRAM_ID_BRDF_SPECULAR_EVAL, PROGRAM_ID_BSDF_SPECULAR_SAMPLE,
      PROGRAM_ID_BSDF_SPECULAR_EVAL]"

text \<open>The value of an enumerator is its position; the count closes the enum.\<close>

fun index_of :: "'a \<Rightarrow> 'a list \<Rightarrow> nat" where
  "index_of a [] = 0"
| "index_of a (b # bs) = (if a = b then 0 else Suc (index_of a bs))"

definition program_id :: "ProgramIdentifier \<Rightarrow> int" where
  "program_id p = int (index_of p program_identifiers)"

definition NUM_PROGRAM_IDENTIFIERS :: int where
  "NUM_PROGRAM_IDENTIFIERS = int (length program_identifiers)"

datatype LightType = LIGHT_ENVIRONMENT | LIGHT_PARALLELOGRAM

datatype error = OutOfBounds | SignedOverflow | LengthError

definition INT_MAX :: int where
  "INT_MAX = 2 ^ 31 - 1"

subsection \<open>Data of the application\<close>

type_synonym CUdeviceptr = "64 word"
type_synonym OptixTraversableHandle = "64 word"
type_synonym sbt_header = "8 word list"

record OptixInstance =
  transform :: "real list"
  instanceId :: "32 word"
  sbtOffset :: "32 word"
  visibilityMask :: "32 word"
  flags :: "32 word"
  traversableHandle :: OptixTraversableHandle

record GeometryData =
  indices :: CUdeviceptr
  attributes :: CUdeviceptr
  numIndices :: nat
  numAttributes :: nat
  gas :: CUdeviceptr

record LightDefinition =
  light_type :: LightType
  position :: float3
  vecU :: float3
  vecV :: float3
  normal :: float3
  area :: real
  emission :: float3

record MaterialParameterGUI =
  indexBSDF :: int
  albedo :: float3
  useAlbedoTexture :: bool
  useCutoutTexture :: bool
  thinwalled :: bool
  absorptionColor :: float3
  volumeDistanceScale :: real
  ior :: real

record MaterialParameter =
  mp_indexBSDF :: int
  mp_albedo :: float3
  textureAlbedo :: "64 word"
  textureCutout :: "64 word"
  mp_flags :: "32 word"
  absorption :: float3_ieee
  mp_ior :: real

text \<open>The payload of a hit record (\<^verbatim>\<open>.data\<close>) and the record itself.\<close>

record GeometryInstanceData =
  data_indices :: CUdeviceptr
  data_attributes :: CUdeviceptr
  materialIndex :: int
  lightIndex :: int

record SbtRecordGeometryInstanceData =
  header :: sbt_header
  data :: GeometryInstanceData

record OptixShaderBindingTable =
  missRecordCount :: "32 word"
  hitgroupRecordCount :: "32 word"
  callablesRecordCount :: "32 word"

record SystemParameter =
  outputBuffer :: CUdeviceptr
  iterationIndex :: int
  numLights :: "32 word"
  cameraPosition :: float3
  cameraU :: float3
  cameraV :: float3
  cameraW :: float3

text \<open>
  Of \<^verbatim>\<open>SystemParameter\<close> and \<^verbatim>\<open>OptixShaderBindingTable\<close> the model keeps the fields
  the statements below read; the others (textures, path lengths, epsilon, strides and base
  pointers) are set once and have no influence on the modelled ones.

  Calls on the device and on OpenGL, in the order the host issues them. A launch carries
  the parameter block that is in device memory when it is issued: this is what the device
  code observes. A copy of hit records carries the index of the first record and the records.
\<close>

datatype device_call =
    StreamSynchronize
  | MemcpySystemParameter SystemParameter
  | MemcpyIterationIndex int
  | MemcpyOutputBuffer CUdeviceptr
  | MemcpySbtRecords nat "SbtRecordGeometryInstanceData list"
  | MemcpyMaterialParameters "MaterialParameter list"
  | MapResources
  | UnmapResources
  | Launch SystemParameter
  | TexImage2D
  | ReadbackOutputBuffer

record Application =
  m_interop :: bool
  m_lightID :: int
  m_missID :: int
  m_iterationIndex :: int
  m_frames :: int
  m_present :: bool
  m_presentNext :: bool
  m_presentAtSecond :: real
  m_instances :: "OptixInstance list"
  m_geometries :: "GeometryData list"
  m_lightDefinitions :: "LightDefinition list"
  m_guiMaterialParameters :: "MaterialParameterGUI list"
  m_textureAlbedo :: "64 word"
  m_textureCutout :: "64 word"
  m_sbtRecordHitRadiance :: sbt_header
  m_sbtRecordHitShadow :: sbt_header
  m_sbtRecordHitRadianceCutout :: sbt_header
  m_sbtRecordHitShadowCutout :: sbt_header
  m_sbtRecordGeometryInstanceData :: "SbtRecordGeometryInstanceData list"
  m_d_sbtRecordGeometryInstanceData :: "SbtRecordGeometryInstanceData list"
  m_d_sbtRecordCallables :: "sbt_header list"
  m_sbt :: OptixShaderBindingTable
  m_systemParameter :: SystemParameter
  m_d_systemParameter :: SystemParameter
  m_d_materialParameters :: "MaterialParameter list"
  device_calls :: "device_call list"

text \<open>
  \<open>m_d_sbtRecordGeometryInstanceData\<close>, \<open>m_d_sbtRecordCallables\<close>,
  \<open>m_d_systemParameter\<close> and \<open>m_d_materialParameters\<close> stand for the device memory behind
  the pointers of these names (the last one behind
  \<^verbatim>\<open>m_systemParameter.materialParameters\<close>); \<open>m_textureAlbedo\<close> and \<open>m_textureCutout\<close>
  stand for the texture objects the two textures return.
\<close>

definition issue :: "device_call list \<Rightarrow> Application \<Rightarrow> Application" where
  "issue cs app = app\<lparr>device_calls := device_calls app @ cs\<rparr>"

subsection \<open>Geometry and instances\<close>

text \<open>
  \<^verbatim>\<open>createGeometry\<close> (lines 1361--1437): the buffers it allocates and the acceleration
  structure it builds come from the device, so the tracked \<^verbatim>\<open>GeometryData\<close> and the
  traversable handle are inputs. What the function does to the application is the
  \<^verbatim>\<open>push_back\<close> on \<open>m_geometries\<close>; it returns the handle.
\<close>

type_synonym built_geometry = "GeometryData \<times> OptixTraversableHandle"

definition createGeometry :: "built_geometry \<Rightarrow> Application \<Rightarrow> OptixTraversableHandle \<times> Application" where
  "createGeometry built app =
     (snd built, app\<lparr>m_geometries := m_geometries app @ [fst built]\<rparr>)"

text \<open>
  Modelled from the spec: \<^verbatim>\<open>createPlane\<close>, \<^verbatim>\<open>createBox\<close>, \<^verbatim>\<open>createSphere\<close>,
  \<^verbatim>\<open>createTorus\<close> and \<^verbatim>\<open>createParallelogram\<close> are not part of the sources. By the spec
  (4.1) each uploads one mesh and returns the handle of \<^verbatim>\<open>createGeometry\<close> on it; the
  environment below holds what the device built for each of the six meshes.
\<close>

record frustum =
  changed :: bool
  frustumPosition :: float3
  frustumU :: float3
  frustumV :: float3
  frustumW :: float3

record scene_env =
  textureObjectCutout :: "64 word"
  textureObjectAlbedo :: "64 word"
  builtPlane :: built_geometry
  builtBox :: built_geometry
  builtNested :: built_geometry
  builtSphere :: built_geometry
  builtTorus :: built_geometry
  builtLight :: built_geometry
  packHeader :: "ProgramIdentifier \<Rightarrow> sbt_header"
  allocatedOutputBuffer :: CUdeviceptr
  initialFrustum :: frustum

text \<open>
  The block that \<^verbatim>\<open>initPipeline\<close> repeats for the plane, the box, the nested sphere, the
  sphere and the torus (lines 1609--1618, 1629--1638, 1651--1660, 1672--1681, 1692--1701)
  and \<^verbatim>\<open>createLights\<close> for the light (lines 2310--2319): the id is the current size of
  \<open>m_instances\<close> as an \<^verbatim>\<open>unsigned int\<close>, the offset is the id times the ray-type count in
  \<^verbatim>\<open>unsigned int\<close> arithmetic.
\<close>

definition pushInstance :: "real list \<Rightarrow> OptixTraversableHandle \<Rightarrow> Application \<Rightarrow> Application" where
  "pushInstance trafo geo app =
     (let id = (of_nat (length (m_instances app)) :: 32 word);
          instance = \<lparr>transform = trafo,
                      instanceId = id,
                      sbtOffset = id * of_nat NUM_RAYTYPES,
                      visibilityMask = 255,
                      flags = 0,
                      traversableHandle = geo\<rparr>
      in app\<lparr>m_instances := m_instances app @ [instance]\<rparr>)"

definition trafoPlane :: "real list" where
  "trafoPlane = [8, 0, 0, 0,  0, 8, 0, 0,  0, 0, 8, 0]"

definition trafoBox :: "real list" where
  "trafoBox = [1, 0, 0, -5/2,  0, 1, 0, 5/4,  0, 0, 1, 0]"

definition trafoNested :: "real list" where
  "trafoNested = [3/4, 0, 0, -5/2,  0, 3/4, 0, 5/4,  0, 0, 3/4, 0]"

definition trafoSphere :: "real list" where
  "trafoSphere = [1, 0, 0, 0,  0, 1, 0, 5/4,  0, 0, 1, 0]"

definition trafoTorus :: "real list" where
  "trafoTorus = [1, 0, 0, 5/2,  0, 1, 0, 5/4,  0, 0, 1, 0]"

definition trafoLight :: "real list" where
  "trafoLight = [1, 0, 0, 0,  0, 1, 0, 0,  0, 0, 1, 0]"

subsection \<open>Lights\<close>

text \<open>
  \<^verbatim>\<open>createLights\<close> (lines 2234--2320). The local \<^verbatim>\<open>light\<close> starts with the values of
  lines 2239--2244; its type is assigned on every path before the \<^verbatim>\<open>push_back\<close>. The
  environment texture is not part of the model. Miss id 1 and 2 both push an environment
  light; every other value pushes none.
\<close>

definition light_unused :: "LightType \<Rightarrow> LightDefinition" where
  "light_unused t =
     \<lparr>light_type = t,
      position = make_float3 0 0 0,
      vecU = make_float3 1 0 0,
      vecV = make_float3 0 1 0,
      normal = make_float3 0 0 1,
      area = 1,
      emission = make_float3 1 1 1\<rparr>"

definition light_parallelogram :: LightDefinition where
  "light_parallelogram =
     (let u = make_float3 4 0 0;
          v = make_float3 0 0 4;
          n = cross u v;
          a = length_f3 n
      in \<lparr>light_type = LIGHT_PARALLELOGRAM,
          position = make_float3 (-2) 4 (-2),
          vecU = u,
          vecV = v,
          normal = div_f3 n a,
          area = a,
          emission = make_float3_1 10\<rparr>)"

definition createLights :: "scene_env \<Rightarrow> Application \<Rightarrow> Application" where
  "createLights env app =
     (let app1 =
            (if m_missID app = 1 \<or> m_missID app = 2
             then app\<lparr>m_lightDefinitions := m_lightDefinitions app @
                        [(light_unused LIGHT_ENVIRONMENT)\<lparr>area := 4 * pi\<rparr>]\<rparr>
             else app)
      in if m_lightID app \<noteq> 0
         then (let app2 = app1\<lparr>m_lightDefinitions := m_lightDefinitions app1 @ [light_parallelogram]\<rparr>;
                   (geoLight, app3) = createGeometry (builtLight env) app2
               in pushInstance trafoLight geoLight app3)
         else app1)"

text \<open>The scene part of \<^verbatim>\<open>initPipeline\<close> (lines 1596--1703).\<close>

definition initPipeline_instances :: "scene_env \<Rightarrow> Application \<Rightarrow> Application" where
  "initPipeline_instances env app =
     (let (geoPlane, app1) = createGeometry (builtPlane env) app;
          app1 = pushInstance trafoPlane geoPlane app1;
          (geoBox, app2) = createGeometry (builtBox env) app1;
          app2 = pushInstance trafoBox geoBox app2;
          (geoNested, app3) = createGeometry (builtNested env) app2;
          app3 = pushInstance trafoNested geoNested app3;
          (geoSphere, app4) = createGeometry (builtSphere env) app3;
          app4 = pushInstance trafoSphere geoSphere app4;
          (geoTorus, app5) = createGeometry (builtTorus env) app4;
          app5 = pushInstance trafoTorus geoTorus app5
      in createLights env app5)"

subsection \<open>Hit records of the shader binding table\<close>

text \<open>
  Conversions of the source: \<^verbatim>\<open>static_cast<int>\<close> of a size keeps the low 32 bits as a
  two's complement value; an \<^verbatim>\<open>int\<close> compared with or passed as a \<^verbatim>\<open>size_t\<close> is taken
  modulo \<open>2 ^ 64\<close>.
\<close>

definition static_cast_int :: "nat \<Rightarrow> int" where
  "static_cast_int n = sint (of_nat n :: 32 word)"

definition to_size_t :: "int \<Rightarrow> nat" where
  "to_size_t i = nat (i mod 2 ^ 64)"

definition in_int_range :: "int \<Rightarrow> bool" where
  "in_int_range i \<longleftrightarrow> - (2 ^ 31) \<le> i \<and> i \<le> INT_MAX"

text \<open>
  \<^verbatim>\<open>resize\<close> keeps the elements that fit and value-initialises the new ones: a zeroed
  header (32 bytes in the OptiX headers, which are not part of the sources; nothing below
  depends on the number) and a zeroed payload.
\<close>

definition zero_record :: SbtRecordGeometryInstanceData where
  "zero_record =
     \<lparr>header = replicate 32 0,
      data = \<lparr>data_indices = 0, data_attributes = 0, materialIndex = 0, lightIndex = 0\<rparr>\<rparr>"

definition resize :: "nat \<Rightarrow> 'a \<Rightarrow> 'a list \<Rightarrow> 'a list" where
  "resize n z xs = take n xs @ replicate (n - length xs) z"

text \<open>A counted loop whose body can fail: the first failure ends it.\<close>

fun for_loop :: "(nat \<Rightarrow> 's \<Rightarrow> error + 's) \<Rightarrow> nat list \<Rightarrow> 's \<Rightarrow> error + 's" where
  "for_loop body [] s = Inr s"
| "for_loop body (i # is) s =
     (case body i s of Inl e \<Rightarrow> Inl e | Inr s' \<Rightarrow> for_loop body is s')"

text \<open>
  The body of the loop of lines 2055--2080 for instance \<open>i\<close>. Reading
  \<open>m_guiMaterialParameters\<close> or \<open>m_geometries\<close> at \<open>i\<close>, or writing the records
  \<open>idx\<close> and \<open>idx + 1\<close>, outside the vector is an error.
\<close>

definition initPipeline_hitgroup_body :: "nat \<Rightarrow> Application \<Rightarrow> error + Application" where
  "initPipeline_hitgroup_body i app =
     (let idx = i * NUM_RAYTYPES;
          records = m_sbtRecordGeometryInstanceData app
      in if length (m_guiMaterialParameters app) \<le> i \<or> length (m_geometries app) \<le> i
            \<or> length records \<le> idx + 1
         then Inl OutOfBounds
         else
           (let (h0, h1) =
                  (if \<not> useCutoutTexture (m_guiMaterialParameters app ! i)
                   then (m_sbtRecordHitRadiance app, m_sbtRecordHitShadow app)
                   else (m_sbtRecordHitRadianceCutout app, m_sbtRecordHitShadowCutout app));
                d = \<lparr>data_indices = indices (m_geometries app ! i),
                     data_attributes = attributes (m_geometries app ! i),
                     materialIndex = int i,
                     lightIndex = - 1\<rparr>
            in Inr (app\<lparr>m_sbtRecordGeometryInstanceData :=
                          records[idx := \<lparr>header = h0, data = d\<rparr>,
                                  idx + 1 := \<lparr>header = h1, data = d\<rparr>]\<rparr>)))"

text \<open>
  Lines 2082--2088: with the light enabled, the two records of the last instance get the
  light index; without any instance the index \<open>(numInstances - 1) * NUM_RAYTYPES\<close> is
  negative.
\<close>

definition initPipeline_hitgroup_light :: "int \<Rightarrow> Application \<Rightarrow> error + Application" where
  "initPipeline_hitgroup_light numInstances app =
     (if m_lightID app \<noteq> 0
      then (let idx = (numInstances - 1) * int NUM_RAYTYPES;
                lightIndex = (if m_missID app \<noteq> 0 then 1 else 0);
                records = m_sbtRecordGeometryInstanceData app
            in if idx < 0 \<or> int (length records) \<le> idx + 1
               then Inl OutOfBounds
               else Inr (app\<lparr>m_sbtRecordGeometryInstanceData :=
                          records[nat idx := (records ! nat idx)
                                    \<lparr>data := (data (records ! nat idx))\<lparr>lightIndex := lightIndex\<rparr>\<rparr>,
                                  nat idx + 1 := (records ! (nat idx + 1))
                                    \<lparr>data := (data (records ! (nat idx + 1)))\<lparr>lightIndex := lightIndex\<rparr>\<rparr>]\<rparr>))
      else Inr app)"

text \<open>
  Lines 2049--2091: the count of instances as an \<^verbatim>\<open>int\<close>, the resize to
  \<open>NUM_RAYTYPES * numInstances\<close> records, the loop, the light, and the copy of the whole
  array to the device. The product that is the size of the resize is also the
  \<^verbatim>\<open>hitgroupRecordCount\<close> of line 2118; it is stored here. A product outside the range
  of \<^verbatim>\<open>int\<close> is an overflow, a negative size is a length error of the vector.
\<close>

definition initPipeline_hitgroups :: "Application \<Rightarrow> error + Application" where
  "initPipeline_hitgroups app =
     (let numInstances = static_cast_int (length (m_instances app));
          n = int NUM_RAYTYPES * numInstances
      in if \<not> in_int_range n then Inl SignedOverflow
         else if n < 0 then Inl LengthError
         else
           (let app1 = app\<lparr>m_sbtRecordGeometryInstanceData :=
                             resize (nat n) zero_record (m_sbtRecordGeometryInstanceData app)\<rparr>
            in case for_loop initPipeline_hitgroup_body [0..<nat numInstances] app1 of
                 Inl e \<Rightarrow> Inl e
               | Inr app2 \<Rightarrow>
                   (case initPipeline_hitgroup_light numInstances app2 of
                      Inl e \<Rightarrow> Inl e
                    | Inr app3 \<Rightarrow>
                        Inr (issue [MemcpySbtRecords 0 (m_sbtRecordGeometryInstanceData app3)]
                              (app3\<lparr>m_d_sbtRecordGeometryInstanceData :=
                                       m_sbtRecordGeometryInstanceData app3,
                                    m_sbt := (m_sbt app3)\<lparr>hitgroupRecordCount := of_int n\<rparr>\<rparr>)))))"

text \<open>
  Lines 2043--2046: the four hit-group headers, packed by OptiX from the program groups.
\<close>

definition initPipeline_headers :: "scene_env \<Rightarrow> Application \<Rightarrow> Application" where
  "initPipeline_headers env app =
     app\<lparr>m_sbtRecordHitRadiance := packHeader env PROGRAM_ID_HIT_RADIANCE,
         m_sbtRecordHitShadow := packHeader env PROGRAM_ID_HIT_SHADOW,
         m_sbtRecordHitRadianceCutout := packHeader env PROGRAM_ID_HIT_RADIANCE_CUTOUT,
         m_sbtRecordHitShadowCutout := packHeader env PROGRAM_ID_HIT_SHADOW_CUTOUT\<rparr>"

text \<open>
  Lines 2096--2122: one header per callable program, from \<^verbatim>\<open>PROGRAM_ID_LENS_PINHOLE\<close>
  to the end of the enum; the vector is local, its copy on the device and its count stay.
\<close>

definition initPipeline_callables :: "scene_env \<Rightarrow> Application \<Rightarrow> Application" where
  "initPipeline_callables env app =
     (let numCallables = NUM_PROGRAM_IDENTIFIERS - program_id PROGRAM_ID_LENS_PINHOLE;
          sbtRecordCallables =
            map (\<lambda>i. packHeader env
                       (program_identifiers ! (nat (program_id PROGRAM_ID_LENS_PINHOLE) + i)))
                [0..<nat numCallables]
      in app\<lparr>m_d_sbtRecordCallables := sbtRecordCallables,
             m_sbt := (m_sbt app)\<lparr>missRecordCount := of_nat NUM_RAYTYPES,
                                   callablesRecordCount := of_nat (length sbtRecordCallables)\<rparr>\<rparr>)"

subsection \<open>Live update of one instance's hit records\<close>

text \<open>
  \<^verbatim>\<open>updateShaderBindingTable\<close> (lines 2188--2211). The guard compares the \<^verbatim>\<open>int\<close>
  with a \<^verbatim>\<open>size_t\<close>, so a negative instance is compared as a huge unsigned value. Inside
  the guard only the two headers are written, then the stream is synchronised and the two
  records are copied to the device.
\<close>

definition updateShaderBindingTable :: "int \<Rightarrow> Application \<Rightarrow> error + Application" where
  "updateShaderBindingTable instance app =
     (if to_size_t instance < length (m_instances app)
      then
        (let idx = instance * int NUM_RAYTYPES;
             records = m_sbtRecordGeometryInstanceData app;
             d_records = m_d_sbtRecordGeometryInstanceData app
         in if \<not> in_int_range idx then Inl SignedOverflow
            else if instance < 0 \<or> int (length (m_guiMaterialParameters app)) \<le> instance
                    \<or> idx < 0 \<or> int (length records) \<le> idx + 1
                    \<or> int (length d_records) \<le> idx + 1
            then Inl OutOfBounds
            else
              (let (h0, h1) =
                     (if \<not> useCutoutTexture (m_guiMaterialParameters app ! nat instance)
                      then (m_sbtRecordHitRadiance app, m_sbtRecordHitShadow app)
                      else (m_sbtRecordHitRadianceCutout app, m_sbtRecordHitShadowCutout app));
                   k = nat idx;
                   records1 = records[k := (records ! k)\<lparr>header := h0\<rparr>,
                                      k + 1 := (records ! (k + 1))\<lparr>header := h1\<rparr>]
               in Inr (issue [StreamSynchronize,
                              MemcpySbtRecords k [records1 ! k, records1 ! (k + 1)]]
                         (app\<lparr>m_sbtRecordGeometryInstanceData := records1,
                              m_d_sbtRecordGeometryInstanceData :=
                                d_records[k := records1 ! k, k + 1 := records1 ! (k + 1)]\<rparr>))))
      else Inr app)"

subsection \<open>Construction and materials\<close>

text \<open>
  The member initialisation of the constructor (lines 187--296): the options give interop,
  light id and miss id; the vectors are empty, the pointers are null. The device copies do
  not exist yet; they are given the same initial contents.
\<close>

definition systemParameter_ctor :: SystemParameter where
  "systemParameter_ctor =
     \<lparr>outputBuffer = 0,
      iterationIndex = 0,
      numLights = 0,
      cameraPosition = make_float3 0 0 1,
      cameraU = make_float3 1 0 0,
      cameraV = make_float3 0 1 0,
      cameraW = make_float3 0 0 (- 1)\<rparr>"

definition Application_ctor :: "bool \<Rightarrow> int \<Rightarrow> int \<Rightarrow> Application" where
  "Application_ctor interop light miss =
     \<lparr>m_interop = interop,
      m_lightID = light,
      m_missID = miss,
      m_iterationIndex = 0,
      m_frames = 0,
      m_present = False,
      m_presentNext = True,
      m_presentAtSecond = 1,
      m_instances = [],
      m_geometries = [],
      m_lightDefinitions = [],
      m_guiMaterialParameters = [],
      m_textureAlbedo = 0,
      m_textureCutout = 0,
      m_sbtRecordHitRadiance = [],
      m_sbtRecordHitShadow = [],
      m_sbtRecordHitRadianceCutout = [],
      m_sbtRecordHitShadowCutout = [],
      m_sbtRecordGeometryInstanceData = [],
      m_d_sbtRecordGeometryInstanceData = [],
      m_d_sbtRecordCallables = [],
      m_sbt = \<lparr>missRecordCount = 0, hitgroupRecordCount = 0, callablesRecordCount = 0\<rparr>,
      m_systemParameter = systemParameter_ctor,
      m_d_systemParameter = systemParameter_ctor,
      m_d_materialParameters = [],
      device_calls = []\<rparr>"

text \<open>
  The BSDF indices select a direct callable; their values are the positions in the GUI's
  combo box (lines 1200--1201).
\<close>

definition INDEX_BSDF_DIFFUSE_REFLECTION :: int where
  "INDEX_BSDF_DIFFUSE_REFLECTION = 0"

definition INDEX_BSDF_SPECULAR_REFLECTION :: int where
  "INDEX_BSDF_SPECULAR_REFLECTION = 1"

definition INDEX_BSDF_SPECULAR_REFLECTION_TRANSMISSION :: int where
  "INDEX_BSDF_SPECULAR_REFLECTION_TRANSMISSION = 2"

text \<open>
  \<^verbatim>\<open>initMaterials\<close> (lines 1495--1588): the two textures, then six materials in the
  order of the instance ids: floor, water box, glass sphere, cutout sphere, mirror torus
  and the black material of the light.
\<close>

definition initMaterials :: "scene_env \<Rightarrow> Application \<Rightarrow> Application" where
  "initMaterials env app =
     app\<lparr>m_textureCutout := textureObjectCutout env,
         m_textureAlbedo := textureObjectAlbedo env,
         m_guiMaterialParameters := m_guiMaterialParameters app @
           [\<lparr>indexBSDF = INDEX_BSDF_DIFFUSE_REFLECTION, albedo = make_float3_1 (1/2),
              useAlbedoTexture = True, useCutoutTexture = False, thinwalled = False,
              absorptionColor = make_float3_1 1, volumeDistanceScale = 1, ior = 3/2\<rparr>,
            \<lparr>indexBSDF = INDEX_BSDF_SPECULAR_REFLECTION_TRANSMISSION, albedo = make_float3_1 1,
              useAlbedoTexture = False, useCutoutTexture = False, thinwalled = False,
              absorptionColor = make_float3 (3/4) (3/4) (19/20), volumeDistanceScale = 1,
              ior = 133/100\<rparr>,
            \<lparr>indexBSDF = INDEX_BSDF_SPECULAR_REFLECTION_TRANSMISSION, albedo = make_float3_1 1,
              useAlbedoTexture = False, useCutoutTexture = False, thinwalled = False,
              absorptionColor = make_float3 (1/2) (3/4) (1/2), volumeDistanceScale = 1,
              ior = 152/100\<rparr>,
            \<lparr>indexBSDF = INDEX_BSDF_DIFFUSE_REFLECTION, albedo = make_float3_1 (3/4),
              useAlbedoTexture = False, useCutoutTexture = True, thinwalled = True,
              absorptionColor = make_float3 (980392/1000000) (729412/1000000) (470588/1000000),
              volumeDistanceScale = 1, ior = 3/2\<rparr>,
            \<lparr>indexBSDF = INDEX_BSDF_SPECULAR_REFLECTION,
              albedo = make_float3 (462745/1000000) (72549/100000) 0,
              useAlbedoTexture = False, useCutoutTexture = False, thinwalled = False,
              absorptionColor = make_float3 (9/10) (8/10) (8/10), volumeDistanceScale = 1,
              ior = 133/100\<rparr>,
            \<lparr>indexBSDF = INDEX_BSDF_SPECULAR_REFLECTION, albedo = make_float3_1 0,
              useAlbedoTexture = False, useCutoutTexture = False, thinwalled = False,
              absorptionColor = make_float3_1 1, volumeDistanceScale = 1, ior = 1\<rparr>]\<rparr>"

subsection \<open>Conversion of the GUI materials\<close>

text \<open>
  \<^verbatim>\<open>FLAG_THINWALLED\<close> (\<^verbatim>\<open>shaders/per_ray_data.h\<close>) and \<^verbatim>\<open>RT_DEFAULT_MAX\<close>
  (\<^verbatim>\<open>shaders/app_config.h\<close>) are not part of the sources: they are parameters. The
  sentinel is the finite \<^verbatim>\<open>float\<close> value of the macro.
\<close>

record app_config =
  FLAG_THINWALLED :: "32 word"
  RT_DEFAULT_MAX :: real

text \<open>
  The body of the loop of \<^verbatim>\<open>updateMaterialParameters\<close> (lines 1473--1487) for one
  material. The logarithm is taken only of a channel above zero; every other channel takes
  \<^verbatim>\<open>RT_DEFAULT_MAX\<close>; the vector of the three is then multiplied by the volume distance
  scale.
\<close>

definition updateMaterialParameters_body :: "app_config \<Rightarrow> Application \<Rightarrow> MaterialParameterGUI \<Rightarrow> MaterialParameter" where
  "updateMaterialParameters_body cfg app src =
     (let x = (if 0 < f3_x (absorptionColor src) then neg_f32 (logf (f3_x (absorptionColor src)))
               else Finite (RT_DEFAULT_MAX cfg));
          y = (if 0 < f3_y (absorptionColor src) then neg_f32 (logf (f3_y (absorptionColor src)))
               else Finite (RT_DEFAULT_MAX cfg));
          z = (if 0 < f3_z (absorptionColor src) then neg_f32 (logf (f3_z (absorptionColor src)))
               else Finite (RT_DEFAULT_MAX cfg))
      in \<lparr>mp_indexBSDF = indexBSDF src,
          mp_albedo = albedo src,
          textureAlbedo = (if useAlbedoTexture src then m_textureAlbedo app else 0),
          textureCutout = (if useCutoutTexture src then m_textureCutout app else 0),
          mp_flags = (if thinwalled src then FLAG_THINWALLED cfg else 0),
          absorption = mul_f3_ieee (Float3_ieee x y z) (volumeDistanceScale src),
          mp_ior = ior src\<rparr>)"

text \<open>
  \<^verbatim>\<open>updateMaterialParameters\<close> (lines 1464--1492): every GUI material is converted, then
  the stream is synchronised and the array is copied to the device.
\<close>

definition updateMaterialParameters :: "app_config \<Rightarrow> Application \<Rightarrow> Application" where
  "updateMaterialParameters cfg app =
     (let materialParameters =
            map (updateMaterialParameters_body cfg app) (m_guiMaterialParameters app)
      in issue [StreamSynchronize, MemcpyMaterialParameters materialParameters]
           (app\<lparr>m_d_materialParameters := materialParameters\<rparr>))"

subsection \<open>The whole of initPipeline\<close>

text \<open>
  Lines 2124--2171: the output buffer (mapped from the graphics resource or allocated:
  either way a pointer from the device), the materials, the number of lights, iteration
  index zero, the camera, and the first copy of the parameter block to the device.
\<close>

definition initPipeline_parameters :: "app_config \<Rightarrow> scene_env \<Rightarrow> Application \<Rightarrow> Application" where
  "initPipeline_parameters cfg env app =
     (let app1 = app\<lparr>m_systemParameter :=
                       (m_systemParameter app)\<lparr>outputBuffer := allocatedOutputBuffer env\<rparr>\<rparr>;
          app2 = updateMaterialParameters cfg app1;
          sp = (m_systemParameter app2)
                 \<lparr>numLights := of_nat (length (m_lightDefinitions app2)),
                  iterationIndex := 0,
                  cameraPosition := frustumPosition (initialFrustum env),
                  cameraU := frustumU (initialFrustum env),
                  cameraV := frustumV (initialFrustum env),
                  cameraW := frustumW (initialFrustum env)\<rparr>
      in issue [MemcpySystemParameter sp]
           (app2\<lparr>m_systemParameter := sp, m_d_systemParameter := sp\<rparr>))"

definition initPipeline :: "app_config \<Rightarrow> scene_env \<Rightarrow> Application \<Rightarrow> error + Application" where
  "initPipeline cfg env app =
     (case initPipeline_hitgroups (initPipeline_headers env (initPipeline_instances env app)) of
        Inl e \<Rightarrow> Inl e
      | Inr app1 \<Rightarrow> Inr (initPipeline_parameters cfg env (initPipeline_callables env app1)))"

text \<open>\<^verbatim>\<open>initRenderer\<close> (lines 2214--2231): the materials, then the pipeline.\<close>

definition initRenderer :: "app_config \<Rightarrow> scene_env \<Rightarrow> Application \<Rightarrow> error + Application" where
  "initRenderer cfg env app = initPipeline cfg env (initMaterials env app)"

subsection \<open>The accumulation loop\<close>

text \<open>
  \<^verbatim>\<open>restartAccumulation\<close> (lines 810--820). The timer is not part of the state: its
  reading is an input of \<^verbatim>\<open>render\<close>.
\<close>

definition restartAccumulation :: "Application \<Rightarrow> Application" where
  "restartAccumulation app =
     issue [StreamSynchronize, MemcpySystemParameter (m_systemParameter app)]
       (app\<lparr>m_iterationIndex := 0,
            m_presentNext := True,
            m_presentAtSecond := 1,
            m_d_systemParameter := m_systemParameter app\<rparr>)"

text \<open>
  What one call of \<^verbatim>\<open>render\<close> takes from outside: the camera's answer to
  \<^verbatim>\<open>getFrustum\<close> (whether the frame changed, and the four vectors the parameter block
  holds after the call), the pointer the mapped graphics resource has in this frame, and
  the reading of the timer.
\<close>

record frame_input =
  camera :: frustum
  mappedPointer :: CUdeviceptr
  seconds :: real

text \<open>
  Lines 839--859: the post-increment hands the old counter to the parameter block, the
  field is copied to the device, and the launch reads the block on the device. The
  increment of the largest \<^verbatim>\<open>int\<close> is an overflow.
\<close>

definition render_launch :: "frame_input \<Rightarrow> Application \<Rightarrow> error + Application" where
  "render_launch inp app =
     (if m_iterationIndex app = INT_MAX then Inl SignedOverflow
      else
        (let i = m_iterationIndex app;
             app1 = issue [MemcpyIterationIndex i]
                      (app\<lparr>m_systemParameter := (m_systemParameter app)\<lparr>iterationIndex := i\<rparr>,
                           m_iterationIndex := i + 1,
                           m_d_systemParameter := (m_d_systemParameter app)\<lparr>iterationIndex := i\<rparr>\<rparr>)
         in if m_interop app1
            then
              (let p = mappedPointer inp;
                   d = (m_d_systemParameter app1)\<lparr>outputBuffer := p\<rparr>
               in Inr (issue [MapResources, MemcpyOutputBuffer p, Launch d, UnmapResources]
                        (app1\<lparr>m_systemParameter := (m_systemParameter app1)\<lparr>outputBuffer := p\<rparr>,
                              m_d_systemParameter := d\<rparr>)))
            else Inr (issue [Launch (m_d_systemParameter app1)] app1)))"

text \<open>
  \<^verbatim>\<open>render\<close> (lines 823--910): the camera, the restart when it changed, the launch
  while the frame budget allows, the present when the flag is set, and the flag for the
  next frame from the timer. The result is the repaint flag and the new state. The line
  printed once per second is not modelled.
\<close>

definition render :: "frame_input \<Rightarrow> Application \<Rightarrow> error + (bool \<times> Application)" where
  "render inp app =
     (let cameraChanged = changed (camera inp);
          app1 = app\<lparr>m_systemParameter := (m_systemParameter app)
                        \<lparr>cameraPosition := frustumPosition (camera inp),
                         cameraU := frustumU (camera inp),
                         cameraV := frustumV (camera inp),
                         cameraW := frustumW (camera inp)\<rparr>\<rparr>;
          app2 = (if cameraChanged then restartAccumulation app1 else app1)
      in case (if 0 = m_frames app2 \<or> m_iterationIndex app2 < m_frames app2
               then render_launch inp app2 else Inr app2) of
           Inl e \<Rightarrow> Inl e
         | Inr app3 \<Rightarrow>
             (let (repaint, app4) =
                    (if m_presentNext app3
                     then (True,
                           issue (if m_interop app3 then [TexImage2D]
                                  else [ReadbackOutputBuffer, TexImage2D])
                             (app3\<lparr>m_presentNext := m_present app3\<rparr>))
                     else (False, app3));
                  app5 =
                    (if seconds inp < 1/2
                     then app4\<lparr>m_presentAtSecond := 1, m_presentNext := True\<rparr>
                     else if m_presentAtSecond app4 < seconds inp
                     then app4\<lparr>m_presentAtSecond := of_int \<lceil>seconds inp\<rceil>,
                               m_presentNext := True\<rparr>
                     else app4)
              in Inr (repaint, app5)))"

subsection \<open>Loading device code\<close>

text \<open>
  \<^verbatim>\<open>readData\<close> (lines 1440--1460). The file system is an input: a name either cannot be
  opened, or it opens and the stream buffer delivers some bytes until the file ends or a
  read fails.

  The stream has a state whose \<^verbatim>\<open>fail()\<close> the function tests twice. Construction sets it
  when the file cannot be opened (line 1444). The copy of line 1451 runs on
  \<^verbatim>\<open>std::istreambuf_iterator\<close>, which holds the stream buffer only and calls none of the
  stream's input functions: it cannot set a state bit, so the state tested at line 1453
  is the state after construction. When a read fails, the file buffer of the GNU C++
  library throws \<^verbatim>\<open>std::ios_base::failure\<close>; nothing between the buffer and the caller
  of \<^verbatim>\<open>readData\<close> catches it, so the copy, and with it the function, ends by the
  exception. Otherwise the function returns the bytes and the lines it writes to
  \<^verbatim>\<open>std::cerr\<close>.
\<close>

datatype read_end = EndOfFile | ReadError

datatype file_state = CannotOpen | Opened "8 word list" read_end

datatype exception = ios_base_failure

record ifstream =
  failbit :: bool
  delivered :: "8 word list"
  ending :: read_end

definition ifstream_open :: "file_state \<Rightarrow> ifstream" where
  "ifstream_open f =
     (case f of
        CannotOpen \<Rightarrow> \<lparr>failbit = True, delivered = [], ending = EndOfFile\<rparr>
      | Opened bytes e \<Rightarrow> \<lparr>failbit = False, delivered = bytes, ending = e\<rparr>)"

text \<open>
  The copy through the buffer: all bytes up to the end of the file and the stream as it
  was, or the exception of the failed read.
\<close>

definition istreambuf_copy :: "ifstream \<Rightarrow> exception + 8 word list \<times> ifstream" where
  "istreambuf_copy inputData =
     (case ending inputData of
        EndOfFile \<Rightarrow> Inr (delivered inputData, inputData)
      | ReadError \<Rightarrow> Inl ios_base_failure)"

definition readData :: "(string \<Rightarrow> file_state) \<Rightarrow> string \<Rightarrow> exception + 8 word list \<times> string list" where
  "readData fs filename =
     (let inputData = ifstream_open (fs filename)
      in if failbit inputData
         then Inr ([], [''ERROR: readData() Failed to open file '' @ filename])
         else
           (case istreambuf_copy inputData of
              Inl e \<Rightarrow> Inl e
            | Inr (bytes, inputData1) \<Rightarrow>
                if failbit inputData1
                then Inr ([], [''ERROR: readData() Failed to read file '' @ filename])
                else Inr (bytes, [])))"

section \<open>Predicates and inputs used in the statements\<close>

subsection \<open>Well-formed states\<close>

text \<open>
  The instance list is numbered: the instance at position \<open>i\<close> has id \<open>i\<close> and offset
  \<open>i\<close> times the ray-type count, both as \<^verbatim>\<open>unsigned int\<close>.
\<close>

definition instances_ok :: "OptixInstance list \<Rightarrow> bool" where
  "instances_ok xs \<longleftrightarrow> (\<forall>i < length xs. instanceId (xs ! i) = of_nat i \<and> sbtOffset (xs ! i) = of_nat i * of_nat NUM_RAYTYPES)"

text \<open>
  What the population of the hit records reads: a material and a geometry for every
  instance, a count of instances whose double fits an \<^verbatim>\<open>int\<close>, and at least one
  instance when the light is enabled.
\<close>

definition hitgroups_ready :: "Application \<Rightarrow> bool" where
  "hitgroups_ready app \<longleftrightarrow>
     length (m_instances app) \<le> length (m_guiMaterialParameters app) \<and>
     length (m_instances app) \<le> length (m_geometries app) \<and>
     length (m_instances app) < 2 ^ 30 \<and>
     (m_lightID app = 0 \<or> m_instances app \<noteq> [])"

text \<open>
  What \<^verbatim>\<open>updateShaderBindingTable\<close> relies on: the host array and its device copy hold
  one record per instance and ray type, and every instance has a material.
\<close>

definition sbt_consistent :: "Application \<Rightarrow> bool" where
  "sbt_consistent app \<longleftrightarrow>
     length (m_sbtRecordGeometryInstanceData app) = NUM_RAYTYPES * length (m_instances app) \<and>
     length (m_d_sbtRecordGeometryInstanceData app) = NUM_RAYTYPES * length (m_instances app) \<and>
     length (m_instances app) \<le> length (m_guiMaterialParameters app) \<and>
     length (m_instances app) < 2 ^ 30"

text \<open>
  The header pair the source selects for instance \<open>i\<close>, the record the loop writes for
  it, and that record after the light index of lines 2082--2088.
\<close>

definition selected_header :: "Application \<Rightarrow> nat \<Rightarrow> bool \<Rightarrow> sbt_header" where
  "selected_header app i shadow =
     (if \<not> useCutoutTexture (m_guiMaterialParameters app ! i)
      then (if shadow then m_sbtRecordHitShadow app else m_sbtRecordHitRadiance app)
      else (if shadow then m_sbtRecordHitShadowCutout app else m_sbtRecordHitRadianceCutout app))"

definition plain_record :: "Application \<Rightarrow> nat \<Rightarrow> bool \<Rightarrow> SbtRecordGeometryInstanceData" where
  "plain_record app i shadow =
     \<lparr>header =
        (if \<not> useCutoutTexture (m_guiMaterialParameters app ! i)
         then (if shadow then m_sbtRecordHitShadow app else m_sbtRecordHitRadiance app)
         else (if shadow then m_sbtRecordHitShadowCutout app else m_sbtRecordHitRadianceCutout app)),
      data = \<lparr>data_indices = indices (m_geometries app ! i),
               data_attributes = attributes (m_geometries app ! i),
               materialIndex = int i,
               lightIndex = - 1\<rparr>\<rparr>"

definition populated_record :: "Application \<Rightarrow> nat \<Rightarrow> bool \<Rightarrow> SbtRecordGeometryInstanceData" where
  "populated_record app i shadow =
     (plain_record app i shadow)
       \<lparr>data := (data (plain_record app i shadow))
          \<lparr>lightIndex :=
             (if m_lightID app \<noteq> 0 \<and> Suc i = length (m_instances app)
              then (if m_missID app \<noteq> 0 then 1 else 0) else - 1)\<rparr>\<rparr>"

text \<open>
  A sequence of appends, each with its own transform and handle, in the order of the
  list: the scene construction is one such sequence, and any other order is another.
\<close>

fun pushInstances :: "(real list \<times> OptixTraversableHandle) list \<Rightarrow> Application \<Rightarrow> Application" where
  "pushInstances [] app = app"
| "pushInstances (p # ps) app = pushInstances ps (pushInstance (fst p) (snd p) app)"

subsection \<open>A concrete scene\<close>

text \<open>
  Device values for one run: six meshes at distinct addresses, headers that show their
  program identifier, a constant environment (miss id 1) and the parallelogram light
  (light id 1), no interop.
\<close>

definition example_geometry :: "nat \<Rightarrow> built_geometry" where
  "example_geometry k =
     (\<lparr>indices = of_nat (4096 * k + 1024), attributes = of_nat (4096 * k + 2048),
       numIndices = 6, numAttributes = 4, gas = of_nat (4096 * k + 3072)\<rparr>, of_nat (k + 1))"

definition example_env :: scene_env where
  "example_env =
     \<lparr>textureObjectCutout = 7, textureObjectAlbedo = 8,
      builtPlane = example_geometry 0, builtBox = example_geometry 1,
      builtNested = example_geometry 2, builtSphere = example_geometry 3,
      builtTorus = example_geometry 4, builtLight = example_geometry 5,
      packHeader = (\<lambda>p. replicate 32 (of_int (program_id p))),
      allocatedOutputBuffer = 65536,
      initialFrustum = \<lparr>changed = True, frustumPosition = make_float3 0 0 1,
        frustumU = make_float3 1 0 0, frustumV = make_float3 0 1 0,
        frustumW = make_float3 0 0 (- 1)\<rparr>\<rparr>"

definition example_config :: app_config where
  "example_config = \<lparr>FLAG_THINWALLED = 1, RT_DEFAULT_MAX = 2 ^ 90\<rparr>"

definition example_start :: Application where
  "example_start = Application_ctor False 1 1"

text \<open>The state in which the hit records are populated, and the state after start-up.\<close>

definition example_prepared :: Application where
  "example_prepared =
     initPipeline_headers example_env
       (initPipeline_instances example_env (initMaterials example_env example_start))"

definition example_scene :: Application where
  "example_scene =
     (case initRenderer example_config example_env example_start of
        Inl e \<Rightarrow> example_start
      | Inr app \<Rightarrow> app)"

text \<open>
  States the GUI reaches from there. The checkbox of line 1213 has just set the cutout
  flag of material 0, or cleared the one of material 3, and
  \<^verbatim>\<open>updateShaderBindingTable\<close> has not run yet. Or 41 iterations have accumulated, the
  last present is over and the next one is due at second 7.
\<close>

definition example_toggled_on :: Application where
  "example_toggled_on =
     example_scene\<lparr>m_guiMaterialParameters :=
       (m_guiMaterialParameters example_scene)
         [0 := (m_guiMaterialParameters example_scene ! 0)\<lparr>useCutoutTexture := True\<rparr>]\<rparr>"

definition example_toggled_off :: Application where
  "example_toggled_off =
     example_scene\<lparr>m_guiMaterialParameters :=
       (m_guiMaterialParameters example_scene)
         [3 := (m_guiMaterialParameters example_scene ! 3)\<lparr>useCutoutTexture := False\<rparr>]\<rparr>"

definition example_running :: Application where
  "example_running =
     example_scene\<lparr>m_iterationIndex := 41, m_presentNext := False, m_presentAtSecond := 7\<rparr>"

text \<open>
  Appends in another order than the scene's, and a start with a miss id that is none of
  0, 1 and 2 (line 197 stores the option as it comes).
\<close>

definition example_pushes :: "(real list \<times> OptixTraversableHandle) list" where
  "example_pushes = [(trafoTorus, 9), (trafoLight, 4), (trafoPlane, 2), (trafoLight, 4)]"

definition example_other_miss :: Application where
  "example_other_miss = Application_ctor False 1 3"

subsection \<open>Reading the log of device calls\<close>

text \<open>The parameter blocks of the launches and the iteration indices uploaded, in order.\<close>

fun launched :: "device_call list \<Rightarrow> SystemParameter list" where
  "launched [] = []"
| "launched (Launch p # cs) = p # launched cs"
| "launched (c # cs) = launched cs"

fun uploaded_indices :: "device_call list \<Rightarrow> int list" where
  "uploaded_indices [] = []"
| "uploaded_indices (MemcpyIterationIndex i # cs) = i # uploaded_indices cs"
| "uploaded_indices (c # cs) = uploaded_indices cs"

subsection \<open>Inputs for single operations\<close>

text \<open>
  A frame in which the camera moved, read a quarter of a second after the restart; a
  transmissive material with a black absorption channel and volume scale 2, as the GUI's
  sliders allow (lines 1226--1230); a file whose read fails after two bytes.
\<close>

definition example_frame :: frame_input where
  "example_frame =
     \<lparr>camera = \<lparr>changed = True, frustumPosition = make_float3 0 1 5,
                 frustumU = make_float3 1 0 0, frustumV = make_float3 0 1 0,
                 frustumW = make_float3 0 0 (- 1)\<rparr>,
      mappedPointer = 131072,
      seconds = 1/4\<rparr>"

definition example_material :: MaterialParameterGUI where
  "example_material =
     \<lparr>indexBSDF = INDEX_BSDF_SPECULAR_REFLECTION_TRANSMISSION, albedo = make_float3_1 1,
      useAlbedoTexture = False, useCutoutTexture = False, thinwalled = False,
      absorptionColor = make_float3 0 (3/4) 1, volumeDistanceScale = 2, ior = 133/100\<rparr>"

definition example_files :: "string \<Rightarrow> file_state" where
  "example_files name =
     (if name = ''raygeneration.ptx'' then Opened [47, 47, 10] EndOfFile
      else if name = ''miss.ptx'' then Opened [47, 47] ReadError
      else CannotOpen)"

section \<open>Auxiliary facts\<close>

subsection \<open>The instance list\<close>

text \<open>Appending an instance keeps the numbering, whatever transform and handle it has.\<close>

lemma m_instances_createGeometry [simp]:
  "m_instances (snd (createGeometry b app)) = m_instances app"
  by (simp add: createGeometry_def)

lemma m_instances_pushInstance:
  "m_instances (pushInstance t g app) = m_instances app @
     [\<lparr>transform = t, instanceId = of_nat (length (m_instances app)),
       sbtOffset = of_nat (length (m_instances app)) * of_nat NUM_RAYTYPES,
       visibilityMask = 255, flags = 0, traversableHandle = g\<rparr>]"
  by (simp add: pushInstance_def Let_def)

lemma instances_ok_pushInstance [simp]:
  "instances_ok (m_instances (pushInstance t g app)) = instances_ok (m_instances app)"
  by (auto simp: m_instances_pushInstance instances_ok_def nth_append less_Suc_eq)

lemma length_pushInstance [simp]:
  "length (m_instances (pushInstance t g app)) = Suc (length (m_instances app))"
  by (simp add: m_instances_pushInstance)

lemma instances_ok_createLights:
  "instances_ok (m_instances app) \<Longrightarrow> instances_ok (m_instances (createLights env app))"
  by (simp add: createLights_def Let_def split_def createGeometry_def)

lemma length_createLights:
  "length (m_instances (createLights env app)) =
     length (m_instances app) + (if m_lightID app \<noteq> 0 then 1 else 0)"
  by (auto simp: createLights_def Let_def split_def createGeometry_def)

lemma lightID_pushInstance [simp]: "m_lightID (pushInstance t g app) = m_lightID app"
  by (simp add: pushInstance_def Let_def)

lemma lightID_createGeometry [simp]: "m_lightID (snd (createGeometry b app)) = m_lightID app"
  by (simp add: createGeometry_def)

lemma instances_ok_initPipeline_instances:
  "instances_ok (m_instances app) \<Longrightarrow> instances_ok (m_instances (initPipeline_instances env app))"
  unfolding initPipeline_instances_def Let_def split_def
  by (rule instances_ok_createLights) simp

lemma length_initPipeline_instances:
  "length (m_instances (initPipeline_instances env app)) =
     length (m_instances app) + 5 + (if m_lightID app \<noteq> 0 then 1 else 0)"
  unfolding initPipeline_instances_def Let_def split_def
  by (simp add: length_createLights)

lemma unat_small: "i < 6 \<Longrightarrow> unat (of_nat i * of_nat NUM_RAYTYPES :: 32 word) = i * NUM_RAYTYPES"
  by (simp add: NUM_RAYTYPES_def unat_word_ariths unat_of_nat)

subsection \<open>Conversions between \<^verbatim>\<open>int\<close> and sizes\<close>

lemma static_cast_int_small:
  assumes "n < 2 ^ 31"
  shows "static_cast_int n = int n"
proof -
  have "int n < int (2 ^ 31)" using assms by (simp only: of_nat_less_iff)
  then have "int n < 2 ^ 31" by simp
  then have "signed_take_bit 31 (int n) = int n"
    by (intro signed_take_bit_int_eq_self) simp_all
  then show ?thesis by (simp add: static_cast_int_def signed_of_nat)
qed

lemma to_size_t_neg:
  assumes "- (2 ^ 31) \<le> i" "i < 0"
  shows "to_size_t i = nat (i + 2 ^ 64)"
proof -
  have "i mod 2 ^ 64 = (i + 2 ^ 64) mod 2 ^ 64" by simp
  also have "\<dots> = i + 2 ^ 64" using assms by (intro mod_pos_pos_trivial) simp_all
  finally show ?thesis by (simp add: to_size_t_def)
qed

lemma to_size_t_nonneg: "0 \<le> i \<Longrightarrow> i < 2 ^ 64 \<Longrightarrow> to_size_t i = nat i"
  unfolding to_size_t_def by simp

subsection \<open>Population of the hit records\<close>

text \<open>
  The loop over the first \<open>n\<close> instances succeeds and writes their records; the light
  step then changes the light index of the last pair only.
\<close>

lemma for_loop_append:
  "for_loop body (xs @ ys) s =
     (case for_loop body xs s of Inl e \<Rightarrow> Inl e | Inr s' \<Rightarrow> for_loop body ys s')"
  by (induction xs arbitrary: s) (auto split: sum.splits)

lemma hitgroup_body_ok:
  assumes "i < length (m_guiMaterialParameters app)" "i < length (m_geometries app)"
    "2 * i + 1 < length (m_sbtRecordGeometryInstanceData app)"
  shows "initPipeline_hitgroup_body i app =
           Inr (app\<lparr>m_sbtRecordGeometryInstanceData :=
                  (m_sbtRecordGeometryInstanceData app)
                    [2 * i := plain_record app i False, 2 * i + 1 := plain_record app i True]\<rparr>)"
  using assms
  by (simp add: initPipeline_hitgroup_body_def NUM_RAYTYPES_def plain_record_def Let_def mult.commute)

lemma plain_record_records [simp]:
  "plain_record (app\<lparr>m_sbtRecordGeometryInstanceData := rs\<rparr>) i s = plain_record app i s"
  by (simp add: plain_record_def)

lemma hitgroup_loop_ok:
  assumes "n \<le> length (m_guiMaterialParameters app)" "n \<le> length (m_geometries app)"
    "2 * n \<le> length (m_sbtRecordGeometryInstanceData app)"
  shows "\<exists>rs. for_loop initPipeline_hitgroup_body [0..<n] app =
                 Inr (app\<lparr>m_sbtRecordGeometryInstanceData := rs\<rparr>) \<and>
              length rs = length (m_sbtRecordGeometryInstanceData app) \<and>
              (\<forall>k < n. rs ! (2 * k) = plain_record app k False \<and>
                        rs ! (2 * k + 1) = plain_record app k True)"
  using assms
proof (induction n)
  case 0
  have "app\<lparr>m_sbtRecordGeometryInstanceData := m_sbtRecordGeometryInstanceData app\<rparr> = app" by simp
  then show ?case by (intro exI [of _ "m_sbtRecordGeometryInstanceData app"]) simp
next
  case (Suc n)
  then obtain rs where run: "for_loop initPipeline_hitgroup_body [0..<n] app =
        Inr (app\<lparr>m_sbtRecordGeometryInstanceData := rs\<rparr>)"
    and len: "length rs = length (m_sbtRecordGeometryInstanceData app)"
    and old: "\<forall>k < n. rs ! (2 * k) = plain_record app k False \<and> rs ! (2 * k + 1) = plain_record app k True"
    by auto
  let ?app1 = "app\<lparr>m_sbtRecordGeometryInstanceData := rs\<rparr>"
  let ?rs' = "rs[2 * n := plain_record app n False, 2 * n + 1 := plain_record app n True]"
  have body: "initPipeline_hitgroup_body n ?app1 = Inr (app\<lparr>m_sbtRecordGeometryInstanceData := ?rs'\<rparr>)"
    using Suc.prems len by (subst hitgroup_body_ok) simp_all
  have "for_loop initPipeline_hitgroup_body [0..<Suc n] app = Inr (app\<lparr>m_sbtRecordGeometryInstanceData := ?rs'\<rparr>)"
    by (simp add: for_loop_append run body)
  moreover have "length ?rs' = length (m_sbtRecordGeometryInstanceData app)" using len by simp
  moreover have "\<forall>k < Suc n. ?rs' ! (2 * k) = plain_record app k False \<and> ?rs' ! (2 * k + 1) = plain_record app k True"
  proof (intro allI impI)
    fix k assume "k < Suc n"
    show "?rs' ! (2 * k) = plain_record app k False \<and> ?rs' ! (2 * k + 1) = plain_record app k True"
    proof (cases "k = n")
      case True
      then show ?thesis using Suc.prems len by simp
    next
      case False
      with \<open>k < Suc n\<close> have "k < n" by simp
      then have "2 * k \<noteq> 2 * n" "2 * k \<noteq> 2 * n + 1" "2 * k + 1 \<noteq> 2 * n" "2 * k + 1 \<noteq> 2 * n + 1" by presburger+
      then show ?thesis using old \<open>k < n\<close> by (simp add: nth_list_update)
    qed
  qed
  ultimately show ?case by blast
qed

lemma length_resize [simp]: "length (resize n z xs) = n"
  by (simp add: resize_def)

lemma plain_record_lightIndex:
  "(plain_record app i s)\<lparr>data := (data (plain_record app i s))\<lparr>lightIndex := - 1\<rparr>\<rparr> = plain_record app i s"
  by (simp add: plain_record_def)

lemma hitgroup_light_ok:
  assumes len: "length (m_sbtRecordGeometryInstanceData app) = 2 * N"
    and N: "N = length (m_instances app)"
    and light: "m_lightID app = 0 \<or> 0 < N"
    and recs: "\<forall>k < N. m_sbtRecordGeometryInstanceData app ! (2 * k) = plain_record app k False \<and>
                        m_sbtRecordGeometryInstanceData app ! (2 * k + 1) = plain_record app k True"
  shows "\<exists>rs. initPipeline_hitgroup_light (int N) app = Inr (app\<lparr>m_sbtRecordGeometryInstanceData := rs\<rparr>) \<and>
           length rs = 2 * N \<and>
           (\<forall>k < N. rs ! (2 * k) = populated_record app k False \<and>
                     rs ! (2 * k + 1) = populated_record app k True)"
proof (cases "m_lightID app = 0")
  case True
  have "app\<lparr>m_sbtRecordGeometryInstanceData := m_sbtRecordGeometryInstanceData app\<rparr> = app" by simp
  moreover have "populated_record app k s = plain_record app k s" for k s
    using True by (simp add: populated_record_def plain_record_lightIndex)
  ultimately show ?thesis using True len recs
    by (intro exI [of _ "m_sbtRecordGeometryInstanceData app"]) (simp add: initPipeline_hitgroup_light_def)
next
  case False
  with light have pos: "0 < N" by simp
  define l :: int where "l = (if m_missID app \<noteq> 0 then 1 else 0)"
  define j where "j = 2 * (N - 1)"
  let ?rs = "m_sbtRecordGeometryInstanceData app"
  let ?rs' = "?rs[j := (?rs ! j)\<lparr>data := (data (?rs ! j))\<lparr>lightIndex := l\<rparr>\<rparr>,
                  j + 1 := (?rs ! (j + 1))\<lparr>data := (data (?rs ! (j + 1)))\<lparr>lightIndex := l\<rparr>\<rparr>]"
  have idx: "(int N - 1) * int NUM_RAYTYPES = int j"
    using pos by (simp add: j_def NUM_RAYTYPES_def of_nat_diff algebra_simps)
  have jlt: "j + 1 < 2 * N" using pos by (simp add: j_def)
  have run: "initPipeline_hitgroup_light (int N) app = Inr (app\<lparr>m_sbtRecordGeometryInstanceData := ?rs'\<rparr>)"
    using False jlt len
    by (simp add: initPipeline_hitgroup_light_def idx Let_def l_def)
  have "\<forall>k < N. ?rs' ! (2 * k) = populated_record app k False \<and> ?rs' ! (2 * k + 1) = populated_record app k True"
  proof (intro allI impI)
    fix k assume k: "k < N"
    show "?rs' ! (2 * k) = populated_record app k False \<and> ?rs' ! (2 * k + 1) = populated_record app k True"
    proof (cases "Suc k = N")
      case True
      then have kj: "2 * k = j" by (auto simp: j_def)
      have "k < N" using True by simp
      with recs have "?rs ! j = plain_record app k False" "?rs ! (j + 1) = plain_record app k True"
        using kj by auto
      then show ?thesis using True False jlt len N
        by (simp add: kj [symmetric] populated_record_def l_def)
    next
      case ne: False
      with k have "k < N - 1" by simp
      then have "2 * k \<noteq> j" "2 * k \<noteq> j + 1" "2 * k + 1 \<noteq> j" "2 * k + 1 \<noteq> j + 1"
        unfolding j_def by presburger+
      moreover have "populated_record app k s = plain_record app k s" for s
        using ne N by (simp add: populated_record_def plain_record_lightIndex)
      ultimately show ?thesis using recs k by (simp add: nth_list_update)
    qed
  qed
  moreover have "length ?rs' = 2 * N" using len by simp
  ultimately show ?thesis using run by blast
qed

lemma populated_record_records [simp]:
  "populated_record (app\<lparr>m_sbtRecordGeometryInstanceData := rs\<rparr>) i s = populated_record app i s"
  by (simp add: populated_record_def)

lemma initPipeline_hitgroups_ok:
  assumes ready: "hitgroups_ready app"
  defines "N \<equiv> length (m_instances app)"
  shows "\<exists>rs. initPipeline_hitgroups app =
                 Inr (issue [MemcpySbtRecords 0 rs]
                       (app\<lparr>m_sbtRecordGeometryInstanceData := rs,
                            m_d_sbtRecordGeometryInstanceData := rs,
                            m_sbt := (m_sbt app)\<lparr>hitgroupRecordCount := of_nat (2 * N)\<rparr>\<rparr>)) \<and>
              length rs = 2 * N \<and>
              (\<forall>k < N. rs ! (2 * k) = populated_record app k False \<and>
                        rs ! (2 * k + 1) = populated_record app k True)"
proof -
  from ready have small: "N < 2 ^ 30" and mats: "N \<le> length (m_guiMaterialParameters app)"
    and geos: "N \<le> length (m_geometries app)" and light: "m_lightID app = 0 \<or> 0 < N"
    by (auto simp: hitgroups_ready_def N_def)
  from small have "N < 2 ^ 31" by simp
  then have cast: "static_cast_int (length (m_instances app)) = int N"
    unfolding N_def by (rule static_cast_int_small)
  have range: "in_int_range (int NUM_RAYTYPES * int N)"
  proof -
    have "int N < 2 ^ 30" using small by (metis of_nat_less_iff of_nat_numeral of_nat_power)
    then show ?thesis by (simp add: in_int_range_def INT_MAX_def NUM_RAYTYPES_def)
  qed
  have n: "nat (int NUM_RAYTYPES * int N) = 2 * N"
    by (simp add: NUM_RAYTYPES_def nat_mult_distrib)
  define app1 where "app1 = app\<lparr>m_sbtRecordGeometryInstanceData :=
      resize (2 * N) zero_record (m_sbtRecordGeometryInstanceData app)\<rparr>"
  have "\<exists>rs. for_loop initPipeline_hitgroup_body [0..<N] app1 =
                 Inr (app1\<lparr>m_sbtRecordGeometryInstanceData := rs\<rparr>) \<and>
              length rs = length (m_sbtRecordGeometryInstanceData app1) \<and>
              (\<forall>k < N. rs ! (2 * k) = plain_record app1 k False \<and>
                        rs ! (2 * k + 1) = plain_record app1 k True)"
    by (rule hitgroup_loop_ok) (simp_all add: app1_def mats geos)
  then obtain rs1 where loop: "for_loop initPipeline_hitgroup_body [0..<N] app1 =
        Inr (app\<lparr>m_sbtRecordGeometryInstanceData := rs1\<rparr>)"
    and len1: "length rs1 = 2 * N"
    and recs1: "\<forall>k < N. rs1 ! (2 * k) = plain_record app k False \<and> rs1 ! (2 * k + 1) = plain_record app k True"
    by (auto simp: app1_def)
  define app2 where "app2 = app\<lparr>m_sbtRecordGeometryInstanceData := rs1\<rparr>"
  have "\<exists>rs. initPipeline_hitgroup_light (int N) app2 = Inr (app2\<lparr>m_sbtRecordGeometryInstanceData := rs\<rparr>) \<and>
           length rs = 2 * N \<and>
           (\<forall>k < N. rs ! (2 * k) = populated_record app2 k False \<and>
                     rs ! (2 * k + 1) = populated_record app2 k True)"
    by (rule hitgroup_light_ok) (insert recs1 light, simp_all add: app2_def len1 N_def [symmetric])
  then obtain rs where lightrun: "initPipeline_hitgroup_light (int N) app2 =
        Inr (app\<lparr>m_sbtRecordGeometryInstanceData := rs\<rparr>)"
    and len: "length rs = 2 * N"
    and recs: "\<forall>k < N. rs ! (2 * k) = populated_record app k False \<and> rs ! (2 * k + 1) = populated_record app k True"
    by (auto simp: app2_def)
  have "initPipeline_hitgroups app =
          Inr (issue [MemcpySbtRecords 0 rs]
                (app\<lparr>m_sbtRecordGeometryInstanceData := rs,
                     m_d_sbtRecordGeometryInstanceData := rs,
                     m_sbt := (m_sbt app)\<lparr>hitgroupRecordCount := of_nat (2 * N)\<rparr>\<rparr>))"
  proof -
    have nonneg: "\<not> int NUM_RAYTYPES * int N < 0" by (simp add: NUM_RAYTYPES_def)
    have rt: "(word_of_nat NUM_RAYTYPES :: 32 word) = 2"
      by (simp add: NUM_RAYTYPES_def)
    show ?thesis
      unfolding initPipeline_hitgroups_def cast Let_def
      using loop lightrun
      by (simp add: range nonneg n rt app1_def app2_def)
  qed
  with len recs show ?thesis by blast
qed

subsection \<open>The live update\<close>

lemma updateShaderBindingTable_ok:
  assumes cons: "sbt_consistent app"
    and valid: "i < length (m_instances app)"
  defines "rs \<equiv> m_sbtRecordGeometryInstanceData app"
  defines "r0 \<equiv> (rs ! (2 * i))\<lparr>header := selected_header app i False\<rparr>"
  defines "r1 \<equiv> (rs ! (2 * i + 1))\<lparr>header := selected_header app i True\<rparr>"
  shows "updateShaderBindingTable (int i) app =
           Inr (issue [StreamSynchronize, MemcpySbtRecords (2 * i) [r0, r1]]
                 (app\<lparr>m_sbtRecordGeometryInstanceData := rs[2 * i := r0, 2 * i + 1 := r1],
                      m_d_sbtRecordGeometryInstanceData :=
                        (m_d_sbtRecordGeometryInstanceData app)[2 * i := r0, 2 * i + 1 := r1]\<rparr>))"
proof -
  from cons have len: "length rs = 2 * length (m_instances app)"
    and dlen: "length (m_d_sbtRecordGeometryInstanceData app) = 2 * length (m_instances app)"
    and mats: "length (m_instances app) \<le> length (m_guiMaterialParameters app)"
    and small: "length (m_instances app) < 2 ^ 30"
    by (simp_all add: sbt_consistent_def rs_def NUM_RAYTYPES_def)
  from valid small have i30: "i < 2 ^ 30" by simp
  then have ii: "int i < 2 ^ 30" by (metis of_nat_less_iff of_nat_numeral of_nat_power)
  then have guard: "to_size_t (int i) < length (m_instances app)"
    using valid by (simp add: to_size_t_nonneg)
  have idx: "int i * int NUM_RAYTYPES = int (2 * i)" by (simp add: NUM_RAYTYPES_def)
  have range: "in_int_range (int (2 * i))"
    using ii by (simp add: in_int_range_def INT_MAX_def)
  have inb: "\<not> (int i < 0 \<or> int (length (m_guiMaterialParameters app)) \<le> int i
                \<or> int (2 * i) < 0 \<or> int (length rs) \<le> int (2 * i) + 1
                \<or> int (length (m_d_sbtRecordGeometryInstanceData app)) \<le> int (2 * i) + 1)"
    using valid mats len dlen by simp
  have r1': "rs[2 * i := r0, 2 * i + 1 := r1] ! (2 * i + 1) = r1"
    using valid len by simp
  have r0': "rs[2 * i := r0, 2 * i + 1 := r1] ! (2 * i) = r0"
    using valid len by simp
  have k: "nat (2 * int i) = 2 * i" by (simp add: nat_mult_distrib)
  have lt: "2 * i < length rs" "Suc (2 * i) < length rs" using valid len by simp_all
  show ?thesis
    unfolding updateShaderBindingTable_def Let_def idx
    using guard range inb lt
    by (simp add: rs_def [symmetric] selected_header_def r0_def r1_def split_def k)
qed

subsection \<open>Fields the stages of start-up leave alone\<close>

lemma issue_fields [simp]:
  "m_instances (issue cs app) = m_instances app"
  "m_geometries (issue cs app) = m_geometries app"
  "m_guiMaterialParameters (issue cs app) = m_guiMaterialParameters app"
  "m_lightDefinitions (issue cs app) = m_lightDefinitions app"
  "m_lightID (issue cs app) = m_lightID app"
  "m_missID (issue cs app) = m_missID app"
  "m_sbtRecordGeometryInstanceData (issue cs app) = m_sbtRecordGeometryInstanceData app"
  "m_d_sbtRecordGeometryInstanceData (issue cs app) = m_d_sbtRecordGeometryInstanceData app"
  "m_sbtRecordHitRadiance (issue cs app) = m_sbtRecordHitRadiance app"
  "m_sbtRecordHitShadow (issue cs app) = m_sbtRecordHitShadow app"
  "m_sbtRecordHitRadianceCutout (issue cs app) = m_sbtRecordHitRadianceCutout app"
  "m_sbtRecordHitShadowCutout (issue cs app) = m_sbtRecordHitShadowCutout app"
  "m_d_sbtRecordCallables (issue cs app) = m_d_sbtRecordCallables app"
  "m_sbt (issue cs app) = m_sbt app"
  "device_calls (issue cs app) = device_calls app @ cs"
  by (simp_all add: issue_def)

lemma createGeometry_fields [simp]:
  "m_geometries (snd (createGeometry b app)) = m_geometries app @ [fst b]"
  "m_guiMaterialParameters (snd (createGeometry b app)) = m_guiMaterialParameters app"
  "m_lightDefinitions (snd (createGeometry b app)) = m_lightDefinitions app"
  "m_missID (snd (createGeometry b app)) = m_missID app"
  by (simp_all add: createGeometry_def)

lemma pushInstance_fields [simp]:
  "m_geometries (pushInstance t g app) = m_geometries app"
  "m_guiMaterialParameters (pushInstance t g app) = m_guiMaterialParameters app"
  "m_lightDefinitions (pushInstance t g app) = m_lightDefinitions app"
  "m_missID (pushInstance t g app) = m_missID app"
  by (simp_all add: pushInstance_def Let_def)

lemma createLights_fields [simp]:
  "m_guiMaterialParameters (createLights env app) = m_guiMaterialParameters app"
  "m_lightID (createLights env app) = m_lightID app"
  "m_missID (createLights env app) = m_missID app"
  "length (m_geometries (createLights env app)) =
     length (m_geometries app) + (if m_lightID app \<noteq> 0 then 1 else 0)"
  by (simp_all add: createLights_def Let_def split_def)

lemma initPipeline_instances_fields [simp]:
  "m_guiMaterialParameters (initPipeline_instances env app) = m_guiMaterialParameters app"
  "m_lightID (initPipeline_instances env app) = m_lightID app"
  "m_missID (initPipeline_instances env app) = m_missID app"
  "length (m_geometries (initPipeline_instances env app)) =
     length (m_geometries app) + 5 + (if m_lightID app \<noteq> 0 then 1 else 0)"
  by (simp_all add: initPipeline_instances_def Let_def split_def)

lemma initPipeline_headers_fields [simp]:
  "m_instances (initPipeline_headers env app) = m_instances app"
  "m_geometries (initPipeline_headers env app) = m_geometries app"
  "m_guiMaterialParameters (initPipeline_headers env app) = m_guiMaterialParameters app"
  "m_lightID (initPipeline_headers env app) = m_lightID app"
  "m_missID (initPipeline_headers env app) = m_missID app"
  "m_sbtRecordHitRadiance (initPipeline_headers env app) = packHeader env PROGRAM_ID_HIT_RADIANCE"
  "m_sbtRecordHitShadow (initPipeline_headers env app) = packHeader env PROGRAM_ID_HIT_SHADOW"
  "m_sbtRecordHitRadianceCutout (initPipeline_headers env app) = packHeader env PROGRAM_ID_HIT_RADIANCE_CUTOUT"
  "m_sbtRecordHitShadowCutout (initPipeline_headers env app) = packHeader env PROGRAM_ID_HIT_SHADOW_CUTOUT"
  by (simp_all add: initPipeline_headers_def)

lemma initMaterials_fields [simp]:
  "m_instances (initMaterials env app) = m_instances app"
  "m_geometries (initMaterials env app) = m_geometries app"
  "m_lightID (initMaterials env app) = m_lightID app"
  "m_missID (initMaterials env app) = m_missID app"
  "m_lightDefinitions (initMaterials env app) = m_lightDefinitions app"
  "length (m_guiMaterialParameters (initMaterials env app)) = length (m_guiMaterialParameters app) + 6"
  by (simp_all add: initMaterials_def)

lemma m_frames_stages [simp]:
  "m_frames (issue cs app) = m_frames app"
  "m_frames (snd (createGeometry b app)) = m_frames app"
  "m_frames (pushInstance t g app) = m_frames app"
  "m_frames (initPipeline_headers env app) = m_frames app"
  "m_frames (initMaterials env app) = m_frames app"
  "m_frames (initPipeline_callables env app) = m_frames app"
  "m_frames (updateMaterialParameters cfg app) = m_frames app"
  by (simp_all add: issue_def createGeometry_def pushInstance_def initPipeline_headers_def
        initMaterials_def initPipeline_callables_def updateMaterialParameters_def Let_def)

lemma m_frames_createLights [simp]: "m_frames (createLights env app) = m_frames app"
  by (simp add: createLights_def Let_def split_def)

lemma m_frames_initPipeline_instances [simp]:
  "m_frames (initPipeline_instances env app) = m_frames app"
  by (simp add: initPipeline_instances_def Let_def split_def)

lemma m_frames_initPipeline_parameters [simp]:
  "m_frames (initPipeline_parameters cfg env app) = m_frames app"
  by (simp add: initPipeline_parameters_def Let_def)

lemma m_lightDefinitions_createLights:
  "m_lightDefinitions (createLights env app) =
     m_lightDefinitions app @
     (if m_missID app = 1 \<or> m_missID app = 2
      then [(light_unused LIGHT_ENVIRONMENT)\<lparr>area := 4 * pi\<rparr>] else []) @
     (if m_lightID app \<noteq> 0 then [light_parallelogram] else [])"
  by (simp add: createLights_def Let_def split_def)

lemma m_lightDefinitions_initPipeline_instances:
  "m_lightDefinitions (initPipeline_instances env app) =
     m_lightDefinitions app @
     (if m_missID app = 1 \<or> m_missID app = 2
      then [(light_unused LIGHT_ENVIRONMENT)\<lparr>area := 4 * pi\<rparr>] else []) @
     (if m_lightID app \<noteq> 0 then [light_parallelogram] else [])"
  by (simp add: initPipeline_instances_def Let_def split_def m_lightDefinitions_createLights)

lemma m_lightDefinitions_initPipeline_headers [simp]:
  "m_lightDefinitions (initPipeline_headers env app) = m_lightDefinitions app"
  by (simp add: initPipeline_headers_def)

lemma pipeline_ready:
  assumes "m_instances app = []" "m_geometries app = []"
  shows "hitgroups_ready (initPipeline_headers env (initPipeline_instances env (initMaterials env app)))"
proof -
  let ?app = "initPipeline_instances env (initMaterials env app)"
  have len: "length (m_instances ?app) = 5 + (if m_lightID app \<noteq> 0 then 1 else 0)"
    using assms by (simp add: length_initPipeline_instances)
  then have "m_instances ?app \<noteq> []" by auto
  with len assms show ?thesis by (simp add: hitgroups_ready_def)
qed

lemma initPipeline_callables_fields [simp]:
  "m_instances (initPipeline_callables env app) = m_instances app"
  "m_guiMaterialParameters (initPipeline_callables env app) = m_guiMaterialParameters app"
  "m_sbtRecordGeometryInstanceData (initPipeline_callables env app) = m_sbtRecordGeometryInstanceData app"
  "m_d_sbtRecordGeometryInstanceData (initPipeline_callables env app) = m_d_sbtRecordGeometryInstanceData app"
  "m_lightDefinitions (initPipeline_callables env app) = m_lightDefinitions app"
  by (simp_all add: initPipeline_callables_def Let_def)

lemma updateMaterialParameters_fields [simp]:
  "m_instances (updateMaterialParameters cfg app) = m_instances app"
  "m_guiMaterialParameters (updateMaterialParameters cfg app) = m_guiMaterialParameters app"
  "m_sbtRecordGeometryInstanceData (updateMaterialParameters cfg app) = m_sbtRecordGeometryInstanceData app"
  "m_d_sbtRecordGeometryInstanceData (updateMaterialParameters cfg app) = m_d_sbtRecordGeometryInstanceData app"
  "m_lightDefinitions (updateMaterialParameters cfg app) = m_lightDefinitions app"
  by (simp_all add: updateMaterialParameters_def Let_def)

lemma initPipeline_parameters_fields [simp]:
  "m_instances (initPipeline_parameters cfg env app) = m_instances app"
  "m_guiMaterialParameters (initPipeline_parameters cfg env app) = m_guiMaterialParameters app"
  "m_sbtRecordGeometryInstanceData (initPipeline_parameters cfg env app) = m_sbtRecordGeometryInstanceData app"
  "m_d_sbtRecordGeometryInstanceData (initPipeline_parameters cfg env app) = m_d_sbtRecordGeometryInstanceData app"
  "m_lightDefinitions (initPipeline_parameters cfg env app) = m_lightDefinitions app"
  by (simp_all add: initPipeline_parameters_def Let_def)

lemma numLights_initPipeline_parameters:
  "numLights (m_systemParameter (initPipeline_parameters cfg env app)) =
     of_nat (length (m_lightDefinitions app))"
  by (simp add: initPipeline_parameters_def Let_def issue_def)

lemma initRenderer_consistent:
  assumes "m_instances app = []" "m_geometries app = []"
  shows "\<exists>app'. initRenderer cfg env app = Inr app' \<and> sbt_consistent app' \<and>
           length (m_instances app') = (if m_lightID app \<noteq> 0 then 6 else 5) \<and>
           m_frames app' = m_frames app \<and>
           m_lightDefinitions app' =
             m_lightDefinitions app @
             (if m_missID app = 1 \<or> m_missID app = 2
              then [(light_unused LIGHT_ENVIRONMENT)\<lparr>area := 4 * pi\<rparr>] else []) @
             (if m_lightID app \<noteq> 0 then [light_parallelogram] else []) \<and>
           numLights (m_systemParameter app') = of_nat (length (m_lightDefinitions app'))"
proof -
  let ?pre = "initPipeline_headers env (initPipeline_instances env (initMaterials env app))"
  have ready: "hitgroups_ready ?pre" using assms by (rule pipeline_ready)
  have len: "length (m_instances ?pre) = (if m_lightID app \<noteq> 0 then 6 else 5)"
    using assms by (simp add: length_initPipeline_instances)
  from initPipeline_hitgroups_ok [OF ready]
  obtain rs where run: "initPipeline_hitgroups ?pre =
        Inr (issue [MemcpySbtRecords 0 rs]
              (?pre\<lparr>m_sbtRecordGeometryInstanceData := rs,
                    m_d_sbtRecordGeometryInstanceData := rs,
                    m_sbt := (m_sbt ?pre)\<lparr>hitgroupRecordCount := of_nat (2 * length (m_instances ?pre))\<rparr>\<rparr>))"
    and rs: "length rs = 2 * length (m_instances ?pre)"
    by blast
  have mats: "length (m_instances ?pre) \<le> length (m_guiMaterialParameters ?pre)"
    using ready by (simp add: hitgroups_ready_def)
  have small: "length (m_instances ?pre) < 2 ^ 30" using len by (simp split: if_splits)
  show ?thesis
    unfolding initRenderer_def initPipeline_def run
    using mats small rs len
    by (simp add: sbt_consistent_def NUM_RAYTYPES_def m_lightDefinitions_initPipeline_instances
          numLights_initPipeline_parameters)
qed

subsection \<open>The concrete scene\<close>

lemma example_start_fields [simp]:
  "m_frames example_start = 0"
  "m_instances example_start = []"
  "m_geometries example_start = []"
  "m_lightDefinitions example_start = []"
  "m_lightID example_start = 1"
  "m_missID example_start = 1"
  by (simp_all add: example_start_def Application_ctor_def)

lemma example_scene_facts:
  "sbt_consistent example_scene" "length (m_instances example_scene) = 6"
  "m_frames example_scene = 0"
proof -
  obtain app' where "initRenderer example_config example_env example_start = Inr app'"
    and "sbt_consistent app'"
    and "length (m_instances app') = (if m_lightID example_start \<noteq> 0 then 6 else 5)"
    and "m_frames app' = m_frames example_start"
    using initRenderer_consistent [of example_start example_config example_env] by auto
  then show "sbt_consistent example_scene" "length (m_instances example_scene) = 6"
    "m_frames example_scene = 0"
    by (simp_all add: example_scene_def)
qed

subsection \<open>Counts\<close>

lemma unat_of_nat_small: "n < 2 ^ 32 \<Longrightarrow> unat (of_nat n :: 32 word) = n"
  by (simp add: unat_of_nat take_bit_nat_eq_self)

lemma ray_cases: "r < NUM_RAYTYPES \<Longrightarrow> r = 0 \<or> r = 1"
  by (auto simp: NUM_RAYTYPES_def)

lemma callables_count: "NUM_PROGRAM_IDENTIFIERS - program_id PROGRAM_ID_LENS_PINHOLE = 11"
  by (simp add: NUM_PROGRAM_IDENTIFIERS_def program_id_def program_identifiers_def)

lemma initPipeline_callables_length:
  "length (m_d_sbtRecordCallables (initPipeline_callables env app)) =
     nat (NUM_PROGRAM_IDENTIFIERS - program_id PROGRAM_ID_LENS_PINHOLE)"
  "unat (callablesRecordCount (m_sbt (initPipeline_callables env app))) =
     nat (NUM_PROGRAM_IDENTIFIERS - program_id PROGRAM_ID_LENS_PINHOLE)"
  by (simp_all add: initPipeline_callables_def Let_def callables_count)

lemma example_prepared_facts:
  "hitgroups_ready example_prepared"
  "length (m_instances example_prepared) = 6"
  "m_lightID example_prepared = 1"
  "m_missID example_prepared = 1"
  "useCutoutTexture (m_guiMaterialParameters example_prepared ! 3)"
  "\<not> useCutoutTexture (m_guiMaterialParameters example_prepared ! 0)"
  "m_sbtRecordHitRadiance example_prepared = packHeader example_env PROGRAM_ID_HIT_RADIANCE"
  "m_sbtRecordHitRadianceCutout example_prepared = packHeader example_env PROGRAM_ID_HIT_RADIANCE_CUTOUT"
proof -
  show "hitgroups_ready example_prepared"
    unfolding example_prepared_def by (rule pipeline_ready) simp_all
  show "length (m_instances example_prepared) = 6"
    by (simp add: example_prepared_def length_initPipeline_instances)
  show "m_lightID example_prepared = 1" "m_missID example_prepared = 1"
    by (simp_all add: example_prepared_def)
  have mats: "m_guiMaterialParameters example_prepared =
      m_guiMaterialParameters (initMaterials example_env example_start)"
    by (simp add: example_prepared_def)
  have none: "m_guiMaterialParameters example_start = []"
    by (simp add: example_start_def Application_ctor_def)
  show "useCutoutTexture (m_guiMaterialParameters example_prepared ! 3)"
    "\<not> useCutoutTexture (m_guiMaterialParameters example_prepared ! 0)"
    unfolding mats by (simp_all add: initMaterials_def none)
  show "m_sbtRecordHitRadiance example_prepared = packHeader example_env PROGRAM_ID_HIT_RADIANCE"
    "m_sbtRecordHitRadianceCutout example_prepared = packHeader example_env PROGRAM_ID_HIT_RADIANCE_CUTOUT"
    by (simp_all add: example_prepared_def)
qed

subsection \<open>The accumulation loop\<close>

lemma launched_append: "launched (xs @ ys) = launched xs @ launched ys"
  by (induction xs rule: launched.induct) simp_all

lemma uploaded_indices_append: "uploaded_indices (xs @ ys) = uploaded_indices xs @ uploaded_indices ys"
  by (induction xs rule: uploaded_indices.induct) simp_all

lemma restartAccumulation_fields [simp]:
  "m_iterationIndex (restartAccumulation app) = 0"
  "m_presentNext (restartAccumulation app)"
  "m_presentAtSecond (restartAccumulation app) = 1"
  "m_frames (restartAccumulation app) = m_frames app"
  "m_interop (restartAccumulation app) = m_interop app"
  "m_present (restartAccumulation app) = m_present app"
  "m_systemParameter (restartAccumulation app) = m_systemParameter app"
  "m_d_systemParameter (restartAccumulation app) = m_systemParameter app"
  "device_calls (restartAccumulation app) =
     device_calls app @ [StreamSynchronize, MemcpySystemParameter (m_systemParameter app)]"
  by (simp_all add: restartAccumulation_def issue_def)

lemma render_launch_restarted:
  assumes "m_iterationIndex app = 0"
  shows "\<exists>app' new. render_launch inp app = Inr app' \<and>
           device_calls app' = device_calls app @ new \<and>
           map iterationIndex (launched new) = [0] \<and>
           uploaded_indices new = [0] \<and>
           m_iterationIndex app' = 1 \<and>
           iterationIndex (m_systemParameter app') = 0 \<and>
           iterationIndex (m_d_systemParameter app') = 0 \<and>
           m_presentNext app' = m_presentNext app \<and>
           m_present app' = m_present app \<and>
           m_interop app' = m_interop app \<and>
           m_presentAtSecond app' = m_presentAtSecond app"
proof (cases "m_interop app")
  case True
  then show ?thesis using assms
    by (simp add: render_launch_def INT_MAX_def Let_def issue_def)
next
  case False
  then show ?thesis using assms
    by (simp add: render_launch_def INT_MAX_def Let_def issue_def)
qed

subsection \<open>The parallelogram light and the loader\<close>

lemma parallelogram_cross: "cross (Float3 4 0 0) (Float3 0 0 4) = Float3 0 (- 16) 0"
  by (simp add: cross_def)

lemma parallelogram_area: "length_f3 (Float3 0 (- 16) 0) = 16"
proof -
  have "sqrt (16 * 16) = \<bar>16::real\<bar>" by (rule real_sqrt_abs2)
  then show ?thesis by (simp add: length_f3_def)
qed

lemma light_parallelogram_fields:
  "light_type light_parallelogram = LIGHT_PARALLELOGRAM"
  "vecU light_parallelogram = make_float3 4 0 0"
  "vecV light_parallelogram = make_float3 0 0 4"
  "area light_parallelogram = 16"
  "normal light_parallelogram = make_float3 0 (- 1) 0"
  by (simp_all add: light_parallelogram_def Let_def parallelogram_cross parallelogram_area
        div_f3_def make_float3_def)

lemma readData_cases:
  "fs filename = CannotOpen \<Longrightarrow>
     readData fs filename = Inr ([], [''ERROR: readData() Failed to open file '' @ filename])"
  "fs filename = Opened bytes EndOfFile \<Longrightarrow> readData fs filename = Inr (bytes, [])"
  "fs filename = Opened bytes ReadError \<Longrightarrow> readData fs filename = Inl ios_base_failure"
  by (simp_all add: readData_def ifstream_open_def istreambuf_copy_def)

text \<open>The second test never fires: no run writes the line of line 1455.\<close>

lemma readData_second_test_dead:
  "readData fs filename \<noteq> Inr (bytes, [''ERROR: readData() Failed to read file '' @ filename])"
  by (cases "fs filename"; cases "ending (ifstream_open (fs filename))")
     (simp_all add: readData_def ifstream_open_def istreambuf_copy_def)

subsection \<open>Rounding to single precision\<close>

text \<open>
  The rounded value is within half a unit in the last place of the exact one, so no
  product of magnitude up to \<open>10 ^ 38\<close> overflows; a power of two is its own rounding.
\<close>

lemma round_even_close: "\<bar>of_int (round_even y) - y\<bar> \<le> 1/2"
proof -
  have "of_int \<lfloor>y\<rfloor> \<le> y" "y < of_int \<lfloor>y\<rfloor> + 1" by linarith+
  then show ?thesis by (auto simp: round_even_def Let_def)
qed

lemma float_ulp_pos: "0 < float_ulp x"
  by (simp add: float_ulp_def)

lemma float_ulp_le:
  assumes "x \<noteq> 0"
  shows "float_ulp x \<le> max (\<bar>x\<bar> / 2 ^ 23) 1"
proof (cases "- 126 \<le> \<lfloor>log 2 \<bar>x\<bar>\<rfloor>")
  case True
  from True have m: "max \<lfloor>log 2 \<bar>x\<bar>\<rfloor> (- 126) = \<lfloor>log 2 \<bar>x\<bar>\<rfloor>" by (rule max_absorb1)
  have "float_ulp x = 2 powr (of_int \<lfloor>log 2 \<bar>x\<bar>\<rfloor>) / 2 powr 23"
    unfolding float_ulp_def m by (rule powr_diff)
  also have "2 powr (of_int \<lfloor>log 2 \<bar>x\<bar>\<rfloor>) \<le> 2 powr (log 2 \<bar>x\<bar>)"
    by (intro powr_mono) simp_all
  also have "2 powr (log 2 \<bar>x\<bar>) = \<bar>x\<bar>" using assms by simp
  finally have "float_ulp x \<le> \<bar>x\<bar> / 2 powr 23" by (simp add: divide_right_mono)
  moreover have "(2::real) powr 23 = 2 ^ 23" by (simp add: powr_numeral)
  ultimately show ?thesis by simp
next
  case False
  then have "max \<lfloor>log 2 \<bar>x\<bar>\<rfloor> (- 126) = - 126" by (intro max_absorb2) simp
  then have "float_ulp x = 2 powr (- 149)" by (simp add: float_ulp_def)
  also have "\<dots> \<le> 2 powr 0" by (intro powr_mono) simp_all
  finally show ?thesis by simp
qed

lemma round_to_float_close: "\<bar>round_to_float x - x\<bar> \<le> max (\<bar>x\<bar> / 2 ^ 24) (1/2)"
proof (cases "x = 0")
  case True
  then show ?thesis by (simp add: round_to_float_def)
next
  case False
  let ?u = "float_ulp x"
  have u: "0 < ?u" by (rule float_ulp_pos)
  have "round_to_float x - x = (of_int (round_even (x / ?u)) - x / ?u) * ?u"
    using False u by (simp add: round_to_float_def algebra_simps)
  then have "\<bar>round_to_float x - x\<bar> = \<bar>of_int (round_even (x / ?u)) - x / ?u\<bar> * ?u"
    using u by (simp add: abs_mult)
  also have "\<dots> \<le> 1/2 * ?u"
    using u round_even_close [of "x / ?u"] by (intro mult_right_mono) simp_all
  also have "\<dots> \<le> 1/2 * max (\<bar>x\<bar> / 2 ^ 23) 1"
    using float_ulp_le [OF False] by simp
  also have "\<dots> = max (\<bar>x\<bar> / 2 ^ 24) (1/2)" by (simp add: max_def)
  finally show ?thesis .
qed

lemma to_float32_finite:
  assumes "\<bar>x\<bar> \<le> 10 ^ 38"
  shows "to_float32 x = Finite (round_to_float x)"
proof -
  have "\<bar>round_to_float x - x\<bar> \<le> max (\<bar>x\<bar> / 2 ^ 24) (1/2)" by (rule round_to_float_close)
  also have "\<dots> \<le> 10 ^ 38 / 2 ^ 24" using assms by (simp add: max_def)
  finally have "\<bar>round_to_float x\<bar> \<le> 10 ^ 38 + 10 ^ 38 / 2 ^ 24" using assms by linarith
  also have "\<dots> \<le> FLT_MAX" by (simp add: FLT_MAX_def)
  finally show ?thesis by (auto simp: to_float32_def Let_def)
qed

lemma float_ulp_power:
  assumes "23 \<le> n"
  shows "float_ulp (2 ^ n) = 2 ^ (n - 23)"
proof -
  have "log 2 \<bar>2 ^ n\<bar> = real n" by (simp add: log_nat_power)
  then have "\<lfloor>log 2 \<bar>2 ^ n :: real\<bar>\<rfloor> = int n" by simp
  then have "float_ulp (2 ^ n) = 2 powr (of_int (max (int n) (- 126)) - 23)"
    by (simp only: float_ulp_def)
  also have "of_int (max (int n) (- 126)) - 23 = real (n - 23)"
    using assms by (simp add: max_def of_nat_diff)
  also have "2 powr real (n - 23) = 2 ^ (n - 23)" by (simp add: powr_realpow)
  finally show ?thesis .
qed

lemma round_to_float_power:
  assumes "23 \<le> n"
  shows "round_to_float (2 ^ n) = 2 ^ n"
proof -
  have "n = 23 + (n - 23)" using assms by simp
  then have "(2::real) ^ n = 2 ^ (23 + (n - 23))" by simp
  then have split: "(2::real) ^ n = 2 ^ 23 * 2 ^ (n - 23)" by (simp only: power_add)
  then have q: "(2::real) ^ n / 2 ^ (n - 23) = 2 ^ 23" by simp
  have r: "round_even (2 ^ 23) = 2 ^ 23" by (simp add: round_even_def Let_def)
  have "round_to_float (2 ^ n) = of_int (round_even (2 ^ n / 2 ^ (n - 23))) * 2 ^ (n - 23)"
    by (simp add: round_to_float_def float_ulp_power [OF assms])
  also have "\<dots> = 2 ^ 23 * 2 ^ (n - 23)" by (simp only: q r) simp
  finally show ?thesis using split by simp
qed

text \<open>The coefficient of a black channel, before any bound on the operands.\<close>

lemma black_channel:
  "f3_x (absorptionColor src) = 0 \<Longrightarrow>
     ieee_x (absorption (updateMaterialParameters_body cfg app src)) =
       mul_f32 (Finite (RT_DEFAULT_MAX cfg)) (volumeDistanceScale src)"
  by (simp add: updateMaterialParameters_body_def mul_f3_ieee_def Let_def)

subsection \<open>Sequences of appended instances\<close>

lemma length_pushInstances:
  "length (m_instances (pushInstances ps app)) = length (m_instances app) + length ps"
  by (induction ps arbitrary: app) simp_all

lemma instances_ok_pushInstances:
  "instances_ok (m_instances app) \<Longrightarrow> instances_ok (m_instances (pushInstances ps app))"
  by (induction ps arbitrary: app) simp_all

lemma pushInstances_keeps:
  "i < length (m_instances app) \<Longrightarrow>
     m_instances (pushInstances ps app) ! i = m_instances app ! i"
proof (induction ps arbitrary: app)
  case Nil
  then show ?case by simp
next
  case (Cons p ps)
  have "m_instances (pushInstances ps (pushInstance (fst p) (snd p) app)) ! i =
      m_instances (pushInstance (fst p) (snd p) app) ! i"
    using Cons.prems by (intro Cons.IH) simp
  also have "\<dots> = m_instances app ! i"
    using Cons.prems by (simp add: m_instances_pushInstance nth_append)
  finally show ?case by simp
qed

lemma pushInstances_places:
  "i < length ps \<Longrightarrow>
     transform (m_instances (pushInstances ps app) ! (length (m_instances app) + i)) = fst (ps ! i) \<and>
     traversableHandle (m_instances (pushInstances ps app) ! (length (m_instances app) + i)) =
       snd (ps ! i)"
proof (induction ps arbitrary: app i)
  case Nil
  then show ?case by simp
next
  case (Cons p ps)
  let ?app1 = "pushInstance (fst p) (snd p) app"
  show ?case
  proof (cases i)
    case 0
    have "m_instances (pushInstances ps ?app1) ! length (m_instances app) =
        m_instances ?app1 ! length (m_instances app)"
      by (intro pushInstances_keeps) simp
    then show ?thesis using 0 by (simp add: m_instances_pushInstance)
  next
    case (Suc k)
    with Cons.prems have "k < length ps" by simp
    from Cons.IH [OF this, of ?app1] show ?thesis using Suc by simp
  qed
qed

lemma unat_offset:
  assumes "i < 2 ^ 31"
  shows "unat (of_nat i * of_nat NUM_RAYTYPES :: 32 word) = i * NUM_RAYTYPES"
proof -
  have "(of_nat i * of_nat NUM_RAYTYPES :: 32 word) = of_nat (i * NUM_RAYTYPES)" by simp
  moreover have "i * NUM_RAYTYPES < 2 ^ 32" using assms by (simp add: NUM_RAYTYPES_def)
  ultimately show ?thesis by (simp only: unat_of_nat_small)
qed

lemma unat_id:
  assumes "i < 2 ^ 31"
  shows "unat (of_nat i :: 32 word) = i"
  using assms by (intro unat_of_nat_small) simp

lemma numbered_offsets:
  assumes ok: "instances_ok insts" and small: "length insts < 2 ^ 31" and i: "i < length insts"
  shows "instanceId (insts ! i) = of_nat i \<and>
         unat (instanceId (insts ! i)) = i \<and>
         unat (sbtOffset (insts ! i)) = i * NUM_RAYTYPES \<and>
         NUM_RAYTYPES dvd unat (sbtOffset (insts ! i)) \<and>
         (\<forall>j < length insts. sbtOffset (insts ! j) = sbtOffset (insts ! i) \<longrightarrow> j = i)"
proof -
  have off: "unat (sbtOffset (insts ! k)) = k * NUM_RAYTYPES" if "k < length insts" for k
  proof -
    from that small have "k < 2 ^ 31" by simp
    with ok that show ?thesis by (simp add: instances_ok_def unat_offset)
  qed
  have id: "instanceId (insts ! i) = of_nat i" using ok i by (simp add: instances_ok_def)
  have "i < 2 ^ 31" using i small by simp
  then have uid: "unat (instanceId (insts ! i)) = i" unfolding id by (rule unat_id)
  have uniq: "j = i" if j: "j < length insts" and eq: "sbtOffset (insts ! j) = sbtOffset (insts ! i)" for j
  proof -
    have "j * NUM_RAYTYPES = i * NUM_RAYTYPES" using off [OF i] off [OF j] eq by metis
    then show "j = i" by (simp add: NUM_RAYTYPES_def)
  qed
  show ?thesis using id uid off [OF i] uniq by simp
qed

subsection \<open>The records of the populated table\<close>

lemma headers_stages [simp]:
  "m_sbtRecordHitRadiance (initPipeline_callables env app) = m_sbtRecordHitRadiance app"
  "m_sbtRecordHitShadow (initPipeline_callables env app) = m_sbtRecordHitShadow app"
  "m_sbtRecordHitRadianceCutout (initPipeline_callables env app) = m_sbtRecordHitRadianceCutout app"
  "m_sbtRecordHitShadowCutout (initPipeline_callables env app) = m_sbtRecordHitShadowCutout app"
  "m_sbtRecordHitRadiance (initPipeline_parameters cfg env app) = m_sbtRecordHitRadiance app"
  "m_sbtRecordHitShadow (initPipeline_parameters cfg env app) = m_sbtRecordHitShadow app"
  "m_sbtRecordHitRadianceCutout (initPipeline_parameters cfg env app) = m_sbtRecordHitRadianceCutout app"
  "m_sbtRecordHitShadowCutout (initPipeline_parameters cfg env app) = m_sbtRecordHitShadowCutout app"
  by (simp_all add: initPipeline_callables_def initPipeline_parameters_def
        updateMaterialParameters_def issue_def Let_def)

lemma initRenderer_records:
  assumes "m_instances app = []" "m_geometries app = []"
  shows "\<exists>app'. initRenderer cfg env app = Inr app' \<and>
           m_guiMaterialParameters app' = m_guiMaterialParameters (initMaterials env app) \<and>
           m_sbtRecordHitRadiance app' = packHeader env PROGRAM_ID_HIT_RADIANCE \<and>
           m_sbtRecordHitShadow app' = packHeader env PROGRAM_ID_HIT_SHADOW \<and>
           m_sbtRecordHitRadianceCutout app' = packHeader env PROGRAM_ID_HIT_RADIANCE_CUTOUT \<and>
           m_sbtRecordHitShadowCutout app' = packHeader env PROGRAM_ID_HIT_SHADOW_CUTOUT \<and>
           m_d_sbtRecordGeometryInstanceData app' = m_sbtRecordGeometryInstanceData app' \<and>
           (\<forall>k < (if m_lightID app \<noteq> 0 then 6 else 5).
              m_sbtRecordGeometryInstanceData app' ! (2 * k) =
                populated_record
                  (initPipeline_headers env (initPipeline_instances env (initMaterials env app)))
                  k False \<and>
              m_sbtRecordGeometryInstanceData app' ! (2 * k + 1) =
                populated_record
                  (initPipeline_headers env (initPipeline_instances env (initMaterials env app)))
                  k True)"
proof -
  let ?pre = "initPipeline_headers env (initPipeline_instances env (initMaterials env app))"
  have ready: "hitgroups_ready ?pre" using assms by (rule pipeline_ready)
  have len: "length (m_instances ?pre) = (if m_lightID app \<noteq> 0 then 6 else 5)"
    using assms by (simp add: length_initPipeline_instances)
  from initPipeline_hitgroups_ok [OF ready]
  obtain rs where run: "initPipeline_hitgroups ?pre =
        Inr (issue [MemcpySbtRecords 0 rs]
              (?pre\<lparr>m_sbtRecordGeometryInstanceData := rs,
                    m_d_sbtRecordGeometryInstanceData := rs,
                    m_sbt := (m_sbt ?pre)\<lparr>hitgroupRecordCount := of_nat (2 * length (m_instances ?pre))\<rparr>\<rparr>))"
    and recs: "\<forall>k < length (m_instances ?pre).
        rs ! (2 * k) = populated_record ?pre k False \<and>
        rs ! (2 * k + 1) = populated_record ?pre k True"
    by blast
  show ?thesis
    unfolding initRenderer_def initPipeline_def run
    using recs [unfolded len] by simp
qed

lemma example_headers:
  "packHeader example_env PROGRAM_ID_HIT_RADIANCE = replicate 32 4"
  "packHeader example_env PROGRAM_ID_HIT_SHADOW = replicate 32 5"
  "packHeader example_env PROGRAM_ID_HIT_RADIANCE_CUTOUT = replicate 32 6"
  "packHeader example_env PROGRAM_ID_HIT_SHADOW_CUTOUT = replicate 32 7"
  by (simp_all add: example_env_def program_id_def program_identifiers_def)

lemma example_materials:
  "length (m_guiMaterialParameters (initMaterials example_env example_start)) = 6"
  "\<not> useCutoutTexture (m_guiMaterialParameters (initMaterials example_env example_start) ! 0)"
  "useCutoutTexture (m_guiMaterialParameters (initMaterials example_env example_start) ! 3)"
proof -
  have none: "m_guiMaterialParameters example_start = []"
    by (simp add: example_start_def Application_ctor_def)
  show "length (m_guiMaterialParameters (initMaterials example_env example_start)) = 6"
    "\<not> useCutoutTexture (m_guiMaterialParameters (initMaterials example_env example_start) ! 0)"
    "useCutoutTexture (m_guiMaterialParameters (initMaterials example_env example_start) ! 3)"
    by (simp_all add: initMaterials_def none)
qed

lemma example_scene_records:
  "m_guiMaterialParameters example_scene = m_guiMaterialParameters (initMaterials example_env example_start)"
  "m_sbtRecordHitRadiance example_scene = replicate 32 4"
  "m_sbtRecordHitShadow example_scene = replicate 32 5"
  "m_sbtRecordHitRadianceCutout example_scene = replicate 32 6"
  "m_sbtRecordHitShadowCutout example_scene = replicate 32 7"
  "m_d_sbtRecordGeometryInstanceData example_scene = m_sbtRecordGeometryInstanceData example_scene"
  "header (m_sbtRecordGeometryInstanceData example_scene ! 0) = replicate 32 4"
  "header (m_sbtRecordGeometryInstanceData example_scene ! 1) = replicate 32 5"
  "header (m_sbtRecordGeometryInstanceData example_scene ! 6) = replicate 32 6"
  "header (m_sbtRecordGeometryInstanceData example_scene ! 7) = replicate 32 7"
proof -
  from initRenderer_records [of example_start example_config example_env]
  obtain app' where run: "initRenderer example_config example_env example_start = Inr app'"
    and mats: "m_guiMaterialParameters app' = m_guiMaterialParameters (initMaterials example_env example_start)"
    and h: "m_sbtRecordHitRadiance app' = packHeader example_env PROGRAM_ID_HIT_RADIANCE"
      "m_sbtRecordHitShadow app' = packHeader example_env PROGRAM_ID_HIT_SHADOW"
      "m_sbtRecordHitRadianceCutout app' = packHeader example_env PROGRAM_ID_HIT_RADIANCE_CUTOUT"
      "m_sbtRecordHitShadowCutout app' = packHeader example_env PROGRAM_ID_HIT_SHADOW_CUTOUT"
    and d: "m_d_sbtRecordGeometryInstanceData app' = m_sbtRecordGeometryInstanceData app'"
    and recs: "\<forall>k < 6.
        m_sbtRecordGeometryInstanceData app' ! (2 * k) = populated_record example_prepared k False \<and>
        m_sbtRecordGeometryInstanceData app' ! (2 * k + 1) = populated_record example_prepared k True"
    by (auto simp: example_prepared_def)
  have scene: "example_scene = app'" by (simp add: example_scene_def run)
  have pm: "m_guiMaterialParameters example_prepared =
      m_guiMaterialParameters (initMaterials example_env example_start)"
    by (simp add: example_prepared_def)
  have ph: "m_sbtRecordHitRadiance example_prepared = replicate 32 4"
    "m_sbtRecordHitShadow example_prepared = replicate 32 5"
    "m_sbtRecordHitRadianceCutout example_prepared = replicate 32 6"
    "m_sbtRecordHitShadowCutout example_prepared = replicate 32 7"
    by (simp_all add: example_prepared_def example_headers)
  have r0: "m_sbtRecordGeometryInstanceData app' ! 0 = populated_record example_prepared 0 False"
    "m_sbtRecordGeometryInstanceData app' ! 1 = populated_record example_prepared 0 True"
    using recs [rule_format, of 0] by simp_all
  have r3: "m_sbtRecordGeometryInstanceData app' ! 6 = populated_record example_prepared 3 False"
    "m_sbtRecordGeometryInstanceData app' ! 7 = populated_record example_prepared 3 True"
    using recs [rule_format, of 3] by simp_all
  show "m_guiMaterialParameters example_scene = m_guiMaterialParameters (initMaterials example_env example_start)"
    "m_sbtRecordHitRadiance example_scene = replicate 32 4"
    "m_sbtRecordHitShadow example_scene = replicate 32 5"
    "m_sbtRecordHitRadianceCutout example_scene = replicate 32 6"
    "m_sbtRecordHitShadowCutout example_scene = replicate 32 7"
    "m_d_sbtRecordGeometryInstanceData example_scene = m_sbtRecordGeometryInstanceData example_scene"
    "header (m_sbtRecordGeometryInstanceData example_scene ! 0) = replicate 32 4"
    "header (m_sbtRecordGeometryInstanceData example_scene ! 1) = replicate 32 5"
    "header (m_sbtRecordGeometryInstanceData example_scene ! 6) = replicate 32 6"
    "header (m_sbtRecordGeometryInstanceData example_scene ! 7) = replicate 32 7"
    unfolding scene
    using r0 r3
    by (simp_all add: mats h d example_headers populated_record_def plain_record_def
          pm ph example_materials)
qed

text \<open>
  Both records of instance \<open>i\<close> carry material index \<open>i\<close>; the light index is
  \<open>-1\<close> except in the records of the last instance when the light is enabled, where it
  follows the test of line 2085 on the miss id.
\<close>

lemma hitgroup_payload_indices:
  assumes "hitgroups_ready app"
  shows "\<exists>app'. initPipeline_hitgroups app = Inr app' \<and>
           (\<forall>i < length (m_instances app). \<forall>r < NUM_RAYTYPES.
              materialIndex (data (m_sbtRecordGeometryInstanceData app' ! (i * NUM_RAYTYPES + r))) = int i \<and>
              lightIndex (data (m_sbtRecordGeometryInstanceData app' ! (i * NUM_RAYTYPES + r))) =
                (if m_lightID app \<noteq> 0 \<and> i = length (m_instances app) - 1
                 then (if m_missID app \<noteq> 0 then 1 else 0) else - 1))"
proof -
  let ?N = "length (m_instances app)"
  from initPipeline_hitgroups_ok [OF assms]
  obtain rs where run: "initPipeline_hitgroups app =
        Inr (issue [MemcpySbtRecords 0 rs]
              (app\<lparr>m_sbtRecordGeometryInstanceData := rs,
                    m_d_sbtRecordGeometryInstanceData := rs,
                    m_sbt := (m_sbt app)\<lparr>hitgroupRecordCount := of_nat (2 * ?N)\<rparr>\<rparr>))"
    and recs: "\<forall>k < ?N. rs ! (2 * k) = populated_record app k False \<and>
                         rs ! (2 * k + 1) = populated_record app k True"
    by blast
  have "materialIndex (data (rs ! (i * NUM_RAYTYPES + r))) = int i \<and>
        lightIndex (data (rs ! (i * NUM_RAYTYPES + r))) =
          (if m_lightID app \<noteq> 0 \<and> i = ?N - 1
           then (if m_missID app \<noteq> 0 then 1 else 0) else - 1)"
    if i: "i < ?N" and r: "r < NUM_RAYTYPES" for i r
  proof -
    have last: "Suc i = ?N \<longleftrightarrow> i = ?N - 1" using i by auto
    from r have "r = 0 \<or> r = 1" by (rule ray_cases)
    then show ?thesis
    proof
      assume "r = 0"
      then have "rs ! (i * NUM_RAYTYPES + r) = populated_record app i False"
        using recs i by (simp add: NUM_RAYTYPES_def mult.commute)
      then show ?thesis by (simp add: populated_record_def plain_record_def last)
    next
      assume "r = 1"
      then have "rs ! (i * NUM_RAYTYPES + r) = populated_record app i True"
        using recs i by (simp add: NUM_RAYTYPES_def mult.commute)
      then show ?thesis by (simp add: populated_record_def plain_record_def last)
    qed
  qed
  then show ?thesis unfolding run by simp
qed

subsection \<open>The example states\<close>

lemma example_toggled_on_facts:
  "sbt_consistent example_toggled_on"
  "length (m_instances example_toggled_on) = 6"
  "useCutoutTexture (m_guiMaterialParameters example_toggled_on ! 0)"
  "m_sbtRecordGeometryInstanceData example_toggled_on = m_sbtRecordGeometryInstanceData example_scene"
  "m_sbtRecordHitRadianceCutout example_toggled_on = replicate 32 6"
  "m_sbtRecordHitShadowCutout example_toggled_on = replicate 32 7"
  using example_scene_facts(1,2) example_materials(1)
  by (simp_all add: example_toggled_on_def sbt_consistent_def example_scene_records)

lemma example_toggled_off_facts:
  "sbt_consistent example_toggled_off"
  "length (m_instances example_toggled_off) = 6"
  "\<not> useCutoutTexture (m_guiMaterialParameters example_toggled_off ! 3)"
  "m_sbtRecordGeometryInstanceData example_toggled_off = m_sbtRecordGeometryInstanceData example_scene"
  "m_d_sbtRecordGeometryInstanceData example_toggled_off = m_d_sbtRecordGeometryInstanceData example_scene"
  "m_sbtRecordHitRadiance example_toggled_off = replicate 32 4"
  "m_sbtRecordHitShadow example_toggled_off = replicate 32 5"
  using example_scene_facts(1,2) example_materials(1)
  by (simp_all add: example_toggled_off_def sbt_consistent_def example_scene_records)

lemma example_running_facts:
  "m_frames example_running = 0"
  "m_iterationIndex example_running = 41"
  "\<not> m_presentNext example_running"
  "m_presentAtSecond example_running = 7"
  by (simp_all add: example_running_def example_scene_facts(3))

section \<open>The claims\<close>

text \<open>
  C1. Whatever the number \<open>N\<close> of instances (with a material and a geometry for each,
  and \<open>2 * N\<close> within the range of \<^verbatim>\<open>int\<close>), the population of the hit records
  succeeds and leaves exactly \<open>N * NUM_RAYTYPES\<close> records on the host, the same number on
  the device and as \<^verbatim>\<open>hitgroupRecordCount\<close>. The array of callable records has
  \<open>NUM_PROGRAM_IDENTIFIERS - PROGRAM_ID_LENS_PINHOLE\<close> headers, which is also
  \<^verbatim>\<open>callablesRecordCount\<close>.
\<close>

theorem sbt_size:
  assumes "hitgroups_ready app"
  shows "\<exists>app'. initPipeline_hitgroups app = Inr app' \<and>
           m_instances app' = m_instances app \<and>
           length (m_sbtRecordGeometryInstanceData app') = length (m_instances app) * NUM_RAYTYPES \<and>
           length (m_d_sbtRecordGeometryInstanceData app') = length (m_instances app) * NUM_RAYTYPES \<and>
           unat (hitgroupRecordCount (m_sbt app')) = length (m_instances app) * NUM_RAYTYPES \<and>
           length (m_d_sbtRecordCallables (initPipeline_callables env app')) =
             nat (NUM_PROGRAM_IDENTIFIERS - program_id PROGRAM_ID_LENS_PINHOLE) \<and>
           unat (callablesRecordCount (m_sbt (initPipeline_callables env app'))) =
             nat (NUM_PROGRAM_IDENTIFIERS - program_id PROGRAM_ID_LENS_PINHOLE)"
proof -
  let ?N = "length (m_instances app)"
  from initPipeline_hitgroups_ok [OF assms]
  obtain rs where run: "initPipeline_hitgroups app =
        Inr (issue [MemcpySbtRecords 0 rs]
              (app\<lparr>m_sbtRecordGeometryInstanceData := rs,
                    m_d_sbtRecordGeometryInstanceData := rs,
                    m_sbt := (m_sbt app)\<lparr>hitgroupRecordCount := of_nat (2 * ?N)\<rparr>\<rparr>))"
    and len: "length rs = 2 * ?N"
    by blast
  from assms have "?N < 2 ^ 30" by (simp add: hitgroups_ready_def)
  then have "2 * ?N < 2 ^ 32" by simp
  then have count: "unat (of_nat (2 * ?N) :: 32 word) = 2 * ?N"
    by (rule unat_of_nat_small)
  show ?thesis
    unfolding run using len count
    by (simp add: initPipeline_callables_length NUM_RAYTYPES_def)
qed

theorem sbt_size_witness:
  "hitgroups_ready example_prepared \<and>
   (case initPipeline_hitgroups example_prepared of
      Inl e \<Rightarrow> False
    | Inr app' \<Rightarrow>
        length (m_sbtRecordGeometryInstanceData app') = 12 \<and>
        length (m_d_sbtRecordCallables (initPipeline_callables example_env app')) = 11)"
  using sbt_size [OF example_prepared_facts(1), of example_env] example_prepared_facts(1,2)
    callables_count
  by (auto simp: NUM_RAYTYPES_def)

text \<open>
  C2. Whatever the sequence of appended instances (any transforms and handles, in any
  order, fewer than \<open>2 ^ 31\<close> of them, starting from the empty list of the constructor),
  the instance at position \<open>i\<close> has instance id \<open>i\<close> and SBT offset \<open>i\<close> times the ray-type
  count, and it is the \<open>i\<close>-th appended one; so every offset is a multiple of the
  ray-type count and no two instances share one. The scene construction of
  \<^verbatim>\<open>initPipeline\<close>, the optional parallelogram light of \<^verbatim>\<open>createLights\<close> included, is one
  such sequence of five or six instances, for every light id, miss id and geometry handle.
\<close>

theorem sbt_offset_correlation:
  assumes "m_instances app = []" and "length ps < 2 ^ 31"
  shows "(let insts = m_instances (pushInstances ps app) in
           length insts = length ps \<and>
           (\<forall>i < length insts.
              instanceId (insts ! i) = of_nat i \<and>
              unat (instanceId (insts ! i)) = i \<and>
              unat (sbtOffset (insts ! i)) = i * NUM_RAYTYPES \<and>
              NUM_RAYTYPES dvd unat (sbtOffset (insts ! i)) \<and>
              (\<forall>j < length insts. sbtOffset (insts ! j) = sbtOffset (insts ! i) \<longrightarrow> j = i) \<and>
              transform (insts ! i) = fst (ps ! i) \<and>
              traversableHandle (insts ! i) = snd (ps ! i))) \<and>
         (let insts = m_instances (initPipeline_instances env app) in
           length insts = (if m_lightID app \<noteq> 0 then 6 else 5) \<and>
           (\<forall>i < length insts.
              instanceId (insts ! i) = of_nat i \<and>
              unat (sbtOffset (insts ! i)) = i * NUM_RAYTYPES \<and>
              NUM_RAYTYPES dvd unat (sbtOffset (insts ! i)) \<and>
              (\<forall>j < length insts. sbtOffset (insts ! j) = sbtOffset (insts ! i) \<longrightarrow> j = i)))"
proof (intro conjI)
  define insts where "insts = m_instances (pushInstances ps app)"
  have empty: "instances_ok (m_instances app)" by (simp add: assms(1) instances_ok_def)
  have ok: "instances_ok insts"
    unfolding insts_def using empty by (rule instances_ok_pushInstances)
  have len: "length insts = length ps"
    unfolding insts_def by (simp add: length_pushInstances assms(1))
  have small: "length insts < 2 ^ 31" using len assms(2) by simp
  have place: "transform (insts ! i) = fst (ps ! i) \<and> traversableHandle (insts ! i) = snd (ps ! i)"
    if "i < length insts" for i
    using pushInstances_places [of i ps app] that len by (simp add: insts_def assms(1))
  show "let insts = m_instances (pushInstances ps app) in
           length insts = length ps \<and>
           (\<forall>i < length insts.
              instanceId (insts ! i) = of_nat i \<and>
              unat (instanceId (insts ! i)) = i \<and>
              unat (sbtOffset (insts ! i)) = i * NUM_RAYTYPES \<and>
              NUM_RAYTYPES dvd unat (sbtOffset (insts ! i)) \<and>
              (\<forall>j < length insts. sbtOffset (insts ! j) = sbtOffset (insts ! i) \<longrightarrow> j = i) \<and>
              transform (insts ! i) = fst (ps ! i) \<and>
              traversableHandle (insts ! i) = snd (ps ! i))"
    unfolding insts_def [symmetric] Let_def
    using len numbered_offsets [OF ok small] place by blast
next
  define insts where "insts = m_instances (initPipeline_instances env app)"
  have ok: "instances_ok insts"
    unfolding insts_def
    by (rule instances_ok_initPipeline_instances) (simp add: assms(1) instances_ok_def)
  have len: "length insts = (if m_lightID app \<noteq> 0 then 6 else 5)"
    unfolding insts_def by (simp add: length_initPipeline_instances assms(1))
  then have small: "length insts < 2 ^ 31" by (simp split: if_splits)
  show "let insts = m_instances (initPipeline_instances env app) in
           length insts = (if m_lightID app \<noteq> 0 then 6 else 5) \<and>
           (\<forall>i < length insts.
              instanceId (insts ! i) = of_nat i \<and>
              unat (sbtOffset (insts ! i)) = i * NUM_RAYTYPES \<and>
              NUM_RAYTYPES dvd unat (sbtOffset (insts ! i)) \<and>
              (\<forall>j < length insts. sbtOffset (insts ! j) = sbtOffset (insts ! i) \<longrightarrow> j = i))"
    unfolding insts_def [symmetric] Let_def
    using len numbered_offsets [OF ok small] by blast
qed

theorem sbt_offset_correlation_witness:
  "m_instances example_start = [] \<and> length example_pushes < 2 ^ 31 \<and>
   length (m_instances (pushInstances example_pushes example_start)) = 4 \<and>
   instanceId (m_instances (pushInstances example_pushes example_start) ! 2) = 2 \<and>
   unat (sbtOffset (m_instances (pushInstances example_pushes example_start) ! 2)) = 4 \<and>
   transform (m_instances (pushInstances example_pushes example_start) ! 2) = trafoPlane \<and>
   instanceId (m_instances (pushInstances example_pushes example_start) ! 3) = 3 \<and>
   unat (sbtOffset (m_instances (pushInstances example_pushes example_start) ! 3)) = 6 \<and>
   transform (m_instances (pushInstances example_pushes example_start) ! 3) = trafoLight \<and>
   transform (m_instances (pushInstances example_pushes example_start) ! 1) = trafoLight \<and>
   unat (sbtOffset (m_instances (pushInstances example_pushes example_start) ! 1)) = 2 \<and>
   length (m_instances (initPipeline_instances example_env example_start)) = 6 \<and>
   instanceId (m_instances (initPipeline_instances example_env example_start) ! 5) = 5 \<and>
   unat (sbtOffset (m_instances (initPipeline_instances example_env example_start) ! 5)) = 10"
proof -
  have e: "m_instances example_start = []" by simp
  have l: "length example_pushes < 2 ^ 31" by (simp add: example_pushes_def)
  have n: "length example_pushes = 4" by (simp add: example_pushes_def)
  have p: "fst (example_pushes ! 1) = trafoLight" "fst (example_pushes ! 2) = trafoPlane"
    "fst (example_pushes ! 3) = trafoLight"
    by (simp_all add: example_pushes_def)
  note t = sbt_offset_correlation [OF e l, of example_env, unfolded Let_def]
  note g = t [THEN conjunct1]
  note s = t [THEN conjunct2]
  from g n have len: "length (m_instances (pushInstances example_pushes example_start)) = 4"
    by simp
  have g1: "transform (m_instances (pushInstances example_pushes example_start) ! 1) = trafoLight \<and>
      unat (sbtOffset (m_instances (pushInstances example_pushes example_start) ! 1)) = 2"
    using g [THEN conjunct2, rule_format, of 1] len p by (simp add: NUM_RAYTYPES_def)
  have g2: "instanceId (m_instances (pushInstances example_pushes example_start) ! 2) = 2 \<and>
      unat (sbtOffset (m_instances (pushInstances example_pushes example_start) ! 2)) = 4 \<and>
      transform (m_instances (pushInstances example_pushes example_start) ! 2) = trafoPlane"
    using g [THEN conjunct2, rule_format, of 2] len p by (simp add: NUM_RAYTYPES_def)
  have g3: "instanceId (m_instances (pushInstances example_pushes example_start) ! 3) = 3 \<and>
      unat (sbtOffset (m_instances (pushInstances example_pushes example_start) ! 3)) = 6 \<and>
      transform (m_instances (pushInstances example_pushes example_start) ! 3) = trafoLight"
    using g [THEN conjunct2, rule_format, of 3] len p by (simp add: NUM_RAYTYPES_def)
  from s have slen: "length (m_instances (initPipeline_instances example_env example_start)) = 6"
    by simp
  have s5: "instanceId (m_instances (initPipeline_instances example_env example_start) ! 5) = 5 \<and>
      unat (sbtOffset (m_instances (initPipeline_instances example_env example_start) ! 5)) = 10"
    using s [THEN conjunct2, rule_format, of 5] slen by (simp add: NUM_RAYTYPES_def)
  show ?thesis using e l len g1 g2 g3 slen s5 by simp
qed

text \<open>
  C3. After the initial population, and after \<^verbatim>\<open>updateShaderBindingTable\<close> for a valid
  instance \<open>i\<close>, the two records of the instance carry the radiance and shadow headers
  when its material has \<open>useCutoutTexture\<close> false, and the radiance-cutout and
  shadow-cutout headers when it is true. The update leaves the payload of both records
  as it was.
\<close>

theorem hit_group_headers:
  "(hitgroups_ready app \<longrightarrow>
      (\<exists>app'. initPipeline_hitgroups app = Inr app' \<and>
         (\<forall>i < length (m_instances app).
            header (m_sbtRecordGeometryInstanceData app' ! (i * NUM_RAYTYPES)) =
              (if \<not> useCutoutTexture (m_guiMaterialParameters app ! i)
               then m_sbtRecordHitRadiance app else m_sbtRecordHitRadianceCutout app) \<and>
            header (m_sbtRecordGeometryInstanceData app' ! (i * NUM_RAYTYPES + 1)) =
              (if \<not> useCutoutTexture (m_guiMaterialParameters app ! i)
               then m_sbtRecordHitShadow app else m_sbtRecordHitShadowCutout app)))) \<and>
   (sbt_consistent app \<and> i < length (m_instances app) \<longrightarrow>
      (\<exists>app'. updateShaderBindingTable (int i) app = Inr app' \<and>
         header (m_sbtRecordGeometryInstanceData app' ! (i * NUM_RAYTYPES)) =
           (if \<not> useCutoutTexture (m_guiMaterialParameters app ! i)
            then m_sbtRecordHitRadiance app else m_sbtRecordHitRadianceCutout app) \<and>
         header (m_sbtRecordGeometryInstanceData app' ! (i * NUM_RAYTYPES + 1)) =
           (if \<not> useCutoutTexture (m_guiMaterialParameters app ! i)
            then m_sbtRecordHitShadow app else m_sbtRecordHitShadowCutout app) \<and>
         data (m_sbtRecordGeometryInstanceData app' ! (i * NUM_RAYTYPES)) =
           data (m_sbtRecordGeometryInstanceData app ! (i * NUM_RAYTYPES)) \<and>
         data (m_sbtRecordGeometryInstanceData app' ! (i * NUM_RAYTYPES + 1)) =
           data (m_sbtRecordGeometryInstanceData app ! (i * NUM_RAYTYPES + 1))))"
proof (intro conjI impI)
  assume ready: "hitgroups_ready app"
  let ?N = "length (m_instances app)"
  from initPipeline_hitgroups_ok [OF ready]
  obtain rs where run: "initPipeline_hitgroups app =
        Inr (issue [MemcpySbtRecords 0 rs]
              (app\<lparr>m_sbtRecordGeometryInstanceData := rs,
                    m_d_sbtRecordGeometryInstanceData := rs,
                    m_sbt := (m_sbt app)\<lparr>hitgroupRecordCount := of_nat (2 * ?N)\<rparr>\<rparr>))"
    and recs: "\<forall>k < ?N. rs ! (2 * k) = populated_record app k False \<and>
                         rs ! (2 * k + 1) = populated_record app k True"
    by blast
  have "header (rs ! (k * NUM_RAYTYPES)) =
          (if \<not> useCutoutTexture (m_guiMaterialParameters app ! k)
           then m_sbtRecordHitRadiance app else m_sbtRecordHitRadianceCutout app) \<and>
        header (rs ! (k * NUM_RAYTYPES + 1)) =
          (if \<not> useCutoutTexture (m_guiMaterialParameters app ! k)
           then m_sbtRecordHitShadow app else m_sbtRecordHitShadowCutout app)"
    if "k < ?N" for k
  proof -
    from recs that have "rs ! (k * NUM_RAYTYPES) = populated_record app k False"
      "rs ! (k * NUM_RAYTYPES + 1) = populated_record app k True"
      by (simp_all add: NUM_RAYTYPES_def mult.commute)
    then show ?thesis by (simp add: populated_record_def plain_record_def)
  qed
  then show "\<exists>app'. initPipeline_hitgroups app = Inr app' \<and>
         (\<forall>i < length (m_instances app).
            header (m_sbtRecordGeometryInstanceData app' ! (i * NUM_RAYTYPES)) =
              (if \<not> useCutoutTexture (m_guiMaterialParameters app ! i)
               then m_sbtRecordHitRadiance app else m_sbtRecordHitRadianceCutout app) \<and>
            header (m_sbtRecordGeometryInstanceData app' ! (i * NUM_RAYTYPES + 1)) =
              (if \<not> useCutoutTexture (m_guiMaterialParameters app ! i)
               then m_sbtRecordHitShadow app else m_sbtRecordHitShadowCutout app))"
    unfolding run by simp
next
  assume "sbt_consistent app \<and> i < length (m_instances app)"
  then have cons: "sbt_consistent app" and valid: "i < length (m_instances app)" by simp_all
  from cons valid have lt: "2 * i < length (m_sbtRecordGeometryInstanceData app)"
    "Suc (2 * i) < length (m_sbtRecordGeometryInstanceData app)"
    by (simp_all add: sbt_consistent_def NUM_RAYTYPES_def)
  show "\<exists>app'. updateShaderBindingTable (int i) app = Inr app' \<and>
         header (m_sbtRecordGeometryInstanceData app' ! (i * NUM_RAYTYPES)) =
           (if \<not> useCutoutTexture (m_guiMaterialParameters app ! i)
            then m_sbtRecordHitRadiance app else m_sbtRecordHitRadianceCutout app) \<and>
         header (m_sbtRecordGeometryInstanceData app' ! (i * NUM_RAYTYPES + 1)) =
           (if \<not> useCutoutTexture (m_guiMaterialParameters app ! i)
            then m_sbtRecordHitShadow app else m_sbtRecordHitShadowCutout app) \<and>
         data (m_sbtRecordGeometryInstanceData app' ! (i * NUM_RAYTYPES)) =
           data (m_sbtRecordGeometryInstanceData app ! (i * NUM_RAYTYPES)) \<and>
         data (m_sbtRecordGeometryInstanceData app' ! (i * NUM_RAYTYPES + 1)) =
           data (m_sbtRecordGeometryInstanceData app ! (i * NUM_RAYTYPES + 1))"
    unfolding updateShaderBindingTable_ok [OF cons valid]
    using lt by (simp add: NUM_RAYTYPES_def mult.commute selected_header_def)
qed

theorem hit_group_headers_witness:
  "hitgroups_ready example_prepared \<and>
   (case initPipeline_hitgroups example_prepared of
      Inl e \<Rightarrow> False
    | Inr app' \<Rightarrow>
        header (m_sbtRecordGeometryInstanceData app' ! 0) = replicate 32 4 \<and>
        header (m_sbtRecordGeometryInstanceData app' ! 6) = replicate 32 6) \<and>
   sbt_consistent example_toggled_on \<and> 0 < length (m_instances example_toggled_on) \<and>
   useCutoutTexture (m_guiMaterialParameters example_toggled_on ! 0) \<and>
   header (m_sbtRecordGeometryInstanceData example_toggled_on ! 0) = replicate 32 4 \<and>
   header (m_sbtRecordGeometryInstanceData example_toggled_on ! 1) = replicate 32 5 \<and>
   (case updateShaderBindingTable 0 example_toggled_on of
      Inl e \<Rightarrow> False
    | Inr app' \<Rightarrow>
        header (m_sbtRecordGeometryInstanceData app' ! 0) = replicate 32 6 \<and>
        header (m_sbtRecordGeometryInstanceData app' ! 1) = replicate 32 7 \<and>
        data (m_sbtRecordGeometryInstanceData app' ! 0) =
          data (m_sbtRecordGeometryInstanceData example_toggled_on ! 0) \<and>
        data (m_sbtRecordGeometryInstanceData app' ! 1) =
          data (m_sbtRecordGeometryInstanceData example_toggled_on ! 1))"
proof -
  note ready = example_prepared_facts(1)
  from hit_group_headers [of example_prepared 3, THEN conjunct1, rule_format, OF ready]
  obtain app1 where run1: "initPipeline_hitgroups example_prepared = Inr app1"
    and h: "\<forall>i < 6.
        header (m_sbtRecordGeometryInstanceData app1 ! (i * NUM_RAYTYPES)) =
          (if \<not> useCutoutTexture (m_guiMaterialParameters example_prepared ! i)
           then m_sbtRecordHitRadiance example_prepared
           else m_sbtRecordHitRadianceCutout example_prepared)"
    by (auto simp: example_prepared_facts(2))
  have h3: "header (m_sbtRecordGeometryInstanceData app1 ! 6) = replicate 32 6"
    using h [rule_format, of 3]
    by (simp add: NUM_RAYTYPES_def example_prepared_facts(5,8) example_headers)
  have h0: "header (m_sbtRecordGeometryInstanceData app1 ! 0) = replicate 32 4"
    using h [rule_format, of 0]
    by (simp add: NUM_RAYTYPES_def example_prepared_facts(6,7) example_headers)
  note f = example_toggled_on_facts
  have valid: "0 < length (m_instances example_toggled_on)" by (simp add: f(2))
  have before: "header (m_sbtRecordGeometryInstanceData example_toggled_on ! 0) = replicate 32 4"
    "header (m_sbtRecordGeometryInstanceData example_toggled_on ! 1) = replicate 32 5"
    using example_scene_records(7,8) by (simp_all add: f(4))
  from hit_group_headers [of example_toggled_on 0, THEN conjunct2, rule_format,
      OF conjI [OF f(1) valid]]
  obtain app' where run: "updateShaderBindingTable 0 example_toggled_on = Inr app'"
    and u: "header (m_sbtRecordGeometryInstanceData app' ! 0) = replicate 32 6"
      "header (m_sbtRecordGeometryInstanceData app' ! 1) = replicate 32 7"
      "data (m_sbtRecordGeometryInstanceData app' ! 0) =
          data (m_sbtRecordGeometryInstanceData example_toggled_on ! 0)"
      "data (m_sbtRecordGeometryInstanceData app' ! 1) =
          data (m_sbtRecordGeometryInstanceData example_toggled_on ! 1)"
    using f(3,5,6) by (auto simp: NUM_RAYTYPES_def)
  show ?thesis using ready run1 h0 h3 f(1,3) valid before run u by simp
qed

text \<open>
  C4. For a valid instance \<open>i\<close>, \<^verbatim>\<open>updateShaderBindingTable\<close> keeps the length of the
  host and device arrays; every record outside \<open>[i * R, i * R + R)\<close> is the same before
  and after, on the host and on the device; the records inside the range are the same on
  the device as on the host afterwards; and the payload of every record, the two touched
  ones included, is unchanged.
\<close>

theorem update_locality:
  assumes cons: "sbt_consistent app" and valid: "i < length (m_instances app)"
  shows "\<exists>app'. updateShaderBindingTable (int i) app = Inr app' \<and>
           length (m_sbtRecordGeometryInstanceData app') = length (m_sbtRecordGeometryInstanceData app) \<and>
           length (m_d_sbtRecordGeometryInstanceData app') = length (m_d_sbtRecordGeometryInstanceData app) \<and>
           (\<forall>k < length (m_sbtRecordGeometryInstanceData app).
              (k < i * NUM_RAYTYPES \<or> i * NUM_RAYTYPES + NUM_RAYTYPES \<le> k \<longrightarrow>
                 m_sbtRecordGeometryInstanceData app' ! k = m_sbtRecordGeometryInstanceData app ! k \<and>
                 m_d_sbtRecordGeometryInstanceData app' ! k = m_d_sbtRecordGeometryInstanceData app ! k) \<and>
              (i * NUM_RAYTYPES \<le> k \<and> k < i * NUM_RAYTYPES + NUM_RAYTYPES \<longrightarrow>
                 m_d_sbtRecordGeometryInstanceData app' ! k = m_sbtRecordGeometryInstanceData app' ! k) \<and>
              data (m_sbtRecordGeometryInstanceData app' ! k) =
                data (m_sbtRecordGeometryInstanceData app ! k))"
proof -
  let ?rs = "m_sbtRecordGeometryInstanceData app"
  let ?ds = "m_d_sbtRecordGeometryInstanceData app"
  define r0 where "r0 = (?rs ! (2 * i))\<lparr>header := selected_header app i False\<rparr>"
  define r1 where "r1 = (?rs ! (2 * i + 1))\<lparr>header := selected_header app i True\<rparr>"
  have run: "updateShaderBindingTable (int i) app =
      Inr (issue [StreamSynchronize, MemcpySbtRecords (2 * i) [r0, r1]]
            (app\<lparr>m_sbtRecordGeometryInstanceData := ?rs[2 * i := r0, 2 * i + 1 := r1],
                 m_d_sbtRecordGeometryInstanceData := ?ds[2 * i := r0, 2 * i + 1 := r1]\<rparr>))"
    unfolding r0_def r1_def by (rule updateShaderBindingTable_ok [OF cons valid])
  from cons have len: "length ?rs = 2 * length (m_instances app)"
    and dlen: "length ?ds = length ?rs"
    by (simp_all add: sbt_consistent_def NUM_RAYTYPES_def)
  have d0: "data r0 = data (?rs ! (2 * i))" and d1: "data r1 = data (?rs ! (2 * i + 1))"
    by (simp_all add: r0_def r1_def)
  have "(k < i * NUM_RAYTYPES \<or> i * NUM_RAYTYPES + NUM_RAYTYPES \<le> k \<longrightarrow>
           ?rs[2 * i := r0, 2 * i + 1 := r1] ! k = ?rs ! k \<and>
           ?ds[2 * i := r0, 2 * i + 1 := r1] ! k = ?ds ! k) \<and>
        (i * NUM_RAYTYPES \<le> k \<and> k < i * NUM_RAYTYPES + NUM_RAYTYPES \<longrightarrow>
           ?ds[2 * i := r0, 2 * i + 1 := r1] ! k = ?rs[2 * i := r0, 2 * i + 1 := r1] ! k) \<and>
        data (?rs[2 * i := r0, 2 * i + 1 := r1] ! k) = data (?rs ! k)"
    if k: "k < length ?rs" for k
  proof -
    consider "k = 2 * i" | "k = 2 * i + 1" | "k < 2 * i" | "2 * i + 2 \<le> k" by linarith
    then show ?thesis
    proof cases
      case 1
      then show ?thesis using k dlen d0 by (simp add: NUM_RAYTYPES_def)
    next
      case 2
      then show ?thesis using k dlen d1 by (simp add: NUM_RAYTYPES_def)
    next
      case 3
      then show ?thesis by (simp add: NUM_RAYTYPES_def)
    next
      case 4
      then show ?thesis by (simp add: NUM_RAYTYPES_def)
    qed
  qed
  then show ?thesis unfolding run by simp
qed

theorem update_locality_witness:
  "sbt_consistent example_toggled_off \<and> 3 < length (m_instances example_toggled_off) \<and>
   header (m_sbtRecordGeometryInstanceData example_toggled_off ! 6) = replicate 32 6 \<and>
   header (m_sbtRecordGeometryInstanceData example_toggled_off ! 7) = replicate 32 7 \<and>
   (case updateShaderBindingTable 3 example_toggled_off of
      Inl e \<Rightarrow> False
    | Inr app' \<Rightarrow>
        header (m_sbtRecordGeometryInstanceData app' ! 6) = replicate 32 4 \<and>
        header (m_sbtRecordGeometryInstanceData app' ! 7) = replicate 32 5 \<and>
        m_sbtRecordGeometryInstanceData app' ! 5 = m_sbtRecordGeometryInstanceData example_toggled_off ! 5 \<and>
        m_sbtRecordGeometryInstanceData app' ! 8 = m_sbtRecordGeometryInstanceData example_toggled_off ! 8 \<and>
        m_d_sbtRecordGeometryInstanceData app' ! 5 = m_d_sbtRecordGeometryInstanceData example_toggled_off ! 5 \<and>
        m_d_sbtRecordGeometryInstanceData app' ! 8 = m_d_sbtRecordGeometryInstanceData example_toggled_off ! 8 \<and>
        m_d_sbtRecordGeometryInstanceData app' ! 6 = m_sbtRecordGeometryInstanceData app' ! 6 \<and>
        m_d_sbtRecordGeometryInstanceData app' ! 7 = m_sbtRecordGeometryInstanceData app' ! 7 \<and>
        data (m_sbtRecordGeometryInstanceData app' ! 6) =
          data (m_sbtRecordGeometryInstanceData example_toggled_off ! 6) \<and>
        data (m_sbtRecordGeometryInstanceData app' ! 7) =
          data (m_sbtRecordGeometryInstanceData example_toggled_off ! 7))"
proof -
  note f = example_toggled_off_facts
  have valid: "3 < length (m_instances example_toggled_off)" by (simp add: f(2))
  have len: "length (m_sbtRecordGeometryInstanceData example_toggled_off) = 12"
    using f(1,2) by (simp add: sbt_consistent_def NUM_RAYTYPES_def)
  have before: "header (m_sbtRecordGeometryInstanceData example_toggled_off ! 6) = replicate 32 6"
    "header (m_sbtRecordGeometryInstanceData example_toggled_off ! 7) = replicate 32 7"
    using example_scene_records(9,10) by (simp_all add: f(4))
  from update_locality [OF f(1) valid]
  obtain app' where run: "updateShaderBindingTable 3 example_toggled_off = Inr app'"
    and loc: "\<forall>k < 12.
              (k < 3 * NUM_RAYTYPES \<or> 3 * NUM_RAYTYPES + NUM_RAYTYPES \<le> k \<longrightarrow>
                 m_sbtRecordGeometryInstanceData app' ! k = m_sbtRecordGeometryInstanceData example_toggled_off ! k \<and>
                 m_d_sbtRecordGeometryInstanceData app' ! k = m_d_sbtRecordGeometryInstanceData example_toggled_off ! k) \<and>
              (3 * NUM_RAYTYPES \<le> k \<and> k < 3 * NUM_RAYTYPES + NUM_RAYTYPES \<longrightarrow>
                 m_d_sbtRecordGeometryInstanceData app' ! k = m_sbtRecordGeometryInstanceData app' ! k) \<and>
              data (m_sbtRecordGeometryInstanceData app' ! k) =
                data (m_sbtRecordGeometryInstanceData example_toggled_off ! k)"
    by (auto simp: len)
  have after: "header (m_sbtRecordGeometryInstanceData app' ! 6) = replicate 32 4"
    "header (m_sbtRecordGeometryInstanceData app' ! 7) = replicate 32 5"
    using run [unfolded updateShaderBindingTable_ok [OF f(1) valid, simplified]] len f(3)
    by (auto simp: selected_header_def f(6,7))
  show ?thesis
    using f(1) valid before run after
      loc [rule_format, of 5] loc [rule_format, of 8] loc [rule_format, of 6] loc [rule_format, of 7]
    by (simp add: NUM_RAYTYPES_def)
qed

text \<open>
  C5. When the camera reports a change, and the frame budget is zero or positive,
  \<^verbatim>\<open>render\<close> resets the iteration counter before it uses it: the one launch of the
  frame observes iteration index 0, the index uploaded is 0, and the counter is 1
  afterwards. The restart sets the present flag and resets the threshold to one second,
  so the frame is presented (the texture is uploaded and the result is a repaint); the
  threshold after the frame does not depend on its old value.
\<close>

theorem render_after_camera_change:
  assumes cam: "changed (camera inp)" and frames: "0 \<le> m_frames app"
  shows "\<exists>app' new. render inp app = Inr (True, app') \<and>
           device_calls app' = device_calls app @ new \<and>
           map iterationIndex (launched new) = [0] \<and>
           uploaded_indices new = [0] \<and>
           TexImage2D \<in> set new \<and>
           m_iterationIndex app' = 1 \<and>
           iterationIndex (m_d_systemParameter app') = 0 \<and>
           m_presentAtSecond app' = (if 1 < seconds inp then of_int \<lceil>seconds inp\<rceil> else 1) \<and>
           m_presentNext app' = (if seconds inp < 1/2 \<or> 1 < seconds inp then True else m_present app) \<and>
           m_iterationIndex (restartAccumulation app) = 0 \<and>
           m_presentNext (restartAccumulation app) \<and>
           m_presentAtSecond (restartAccumulation app) = 1"
proof -
  define app1 where "app1 = app\<lparr>m_systemParameter := (m_systemParameter app)
                        \<lparr>cameraPosition := frustumPosition (camera inp),
                         cameraU := frustumU (camera inp),
                         cameraV := frustumV (camera inp),
                         cameraW := frustumW (camera inp)\<rparr>\<rparr>"
  define app2 where "app2 = restartAccumulation app1"
  have a2: "m_iterationIndex app2 = 0" "m_presentNext app2" "m_presentAtSecond app2 = 1"
    "m_frames app2 = m_frames app" "m_present app2 = m_present app"
    "device_calls app2 = device_calls app @ [StreamSynchronize, MemcpySystemParameter (m_systemParameter app1)]"
    by (simp_all add: app2_def app1_def)
  from render_launch_restarted [OF a2(1), of inp]
  obtain app3 new where run: "render_launch inp app2 = Inr app3"
    and calls: "device_calls app3 = device_calls app2 @ new"
    and l: "map iterationIndex (launched new) = [0]"
    and u: "uploaded_indices new = [0]"
    and a3: "m_iterationIndex app3 = 1" "iterationIndex (m_d_systemParameter app3) = 0"
      "m_presentNext app3 = m_presentNext app2" "m_present app3 = m_present app2"
      "m_presentAtSecond app3 = m_presentAtSecond app2"
    by auto
  define present where "present = (if m_interop app3 then [TexImage2D] else [ReadbackOutputBuffer, TexImage2D])"
  define app4 where "app4 = issue present (app3\<lparr>m_presentNext := m_present app3\<rparr>)"
  define app5 where "app5 =
     (if seconds inp < 1/2
      then app4\<lparr>m_presentAtSecond := 1, m_presentNext := True\<rparr>
      else if m_presentAtSecond app4 < seconds inp
      then app4\<lparr>m_presentAtSecond := of_int \<lceil>seconds inp\<rceil>, m_presentNext := True\<rparr>
      else app4)"
  define all where "all = [StreamSynchronize, MemcpySystemParameter (m_systemParameter app1)] @ new @ present"
  have go: "0 = m_frames app2 \<or> m_iterationIndex app2 < m_frames app2"
    using frames a2 by auto
  have r: "render inp app = Inr (True, app5)"
    unfolding render_def Let_def
    using cam go run a3(3) a2(2)
    by (simp add: app1_def [symmetric] app2_def [symmetric] app4_def present_def app5_def)
  have a4: "m_iterationIndex app4 = 1" "iterationIndex (m_d_systemParameter app4) = 0"
    "m_presentAtSecond app4 = 1" "m_presentNext app4 = m_present app"
    "device_calls app4 = device_calls app @ all"
    using a3 a2 calls by (simp_all add: app4_def issue_def all_def)
  have a5: "m_iterationIndex app5 = 1" "iterationIndex (m_d_systemParameter app5) = 0"
    "device_calls app5 = device_calls app @ all"
    "m_presentAtSecond app5 = (if 1 < seconds inp then of_int \<lceil>seconds inp\<rceil> else 1)"
    "m_presentNext app5 = (if seconds inp < 1/2 \<or> 1 < seconds inp then True else m_present app)"
    using a4 by (auto simp: app5_def)
  have p: "TexImage2D \<in> set all" by (simp add: all_def present_def)
  have la: "map iterationIndex (launched all) = [0]"
    using l by (simp add: all_def launched_append present_def)
  have ua: "uploaded_indices all = [0]"
    using u by (simp add: all_def uploaded_indices_append present_def)
  show ?thesis
    using r a5 p la ua by (intro exI [of _ app5] exI [of _ all]) simp
qed

theorem render_after_camera_change_witness:
  "changed (camera example_frame) \<and> 0 \<le> m_frames example_running \<and>
   m_iterationIndex example_running = 41 \<and> \<not> m_presentNext example_running \<and>
   m_presentAtSecond example_running = 7 \<and>
   (case render example_frame example_running of
      Inl e \<Rightarrow> False
    | Inr (repaint, app') \<Rightarrow>
        repaint \<and> m_iterationIndex app' = 1 \<and>
        iterationIndex (m_d_systemParameter app') = 0 \<and>
        map iterationIndex
          (launched (drop (length (device_calls example_running)) (device_calls app'))) = [0] \<and>
        uploaded_indices (drop (length (device_calls example_running)) (device_calls app')) = [0] \<and>
        m_presentAtSecond app' = 1 \<and> m_presentNext app')"
proof -
  note f = example_running_facts
  have c: "changed (camera example_frame)" by (simp add: example_frame_def)
  have s: "seconds example_frame = 1/4" by (simp add: example_frame_def)
  have fr: "0 \<le> m_frames example_running" by (simp add: f(1))
  from render_after_camera_change [OF c fr]
  obtain app' new where run: "render example_frame example_running = Inr (True, app')"
    and calls: "device_calls app' = device_calls example_running @ new"
    and r: "map iterationIndex (launched new) = [0]" "uploaded_indices new = [0]"
      "m_iterationIndex app' = 1" "iterationIndex (m_d_systemParameter app') = 0"
      "m_presentAtSecond app' = 1" "m_presentNext app'"
    by (auto simp: s)
  show ?thesis using c fr f(2,3,4) run r by (simp add: calls)
qed

text \<open>
  C6 (amended). For an absorption colour channel of exactly 0 the derived coefficient is
  the single-precision product of \<^verbatim>\<open>RT_DEFAULT_MAX\<close> and the material's volume distance
  scale. For every scale of the GUI's range from 0 to 100 and a sentinel of magnitude up
  to \<open>10 ^ 36\<close> this product is a finite value, not an infinity and not NaN; at scale 1 it
  is the sentinel itself. For a channel above 0 the coefficient is the negated logarithm
  of the channel multiplied by the volume distance scale. The array copied to the device
  holds this conversion of every GUI material.
\<close>

theorem absorption_derivation:
  "(f3_x (absorptionColor src) = 0 \<longrightarrow>
      ieee_x (absorption (updateMaterialParameters_body cfg app src)) =
        mul_f32 (Finite (RT_DEFAULT_MAX cfg)) (volumeDistanceScale src)) \<and>
   (f3_y (absorptionColor src) = 0 \<longrightarrow>
      ieee_y (absorption (updateMaterialParameters_body cfg app src)) =
        mul_f32 (Finite (RT_DEFAULT_MAX cfg)) (volumeDistanceScale src)) \<and>
   (f3_z (absorptionColor src) = 0 \<longrightarrow>
      ieee_z (absorption (updateMaterialParameters_body cfg app src)) =
        mul_f32 (Finite (RT_DEFAULT_MAX cfg)) (volumeDistanceScale src)) \<and>
   (\<bar>RT_DEFAULT_MAX cfg\<bar> \<le> 10 ^ 36 \<and> 0 \<le> volumeDistanceScale src \<and>
    volumeDistanceScale src \<le> 100 \<longrightarrow>
      mul_f32 (Finite (RT_DEFAULT_MAX cfg)) (volumeDistanceScale src) =
        Finite (round_to_float (RT_DEFAULT_MAX cfg * volumeDistanceScale src))) \<and>
   (\<bar>RT_DEFAULT_MAX cfg\<bar> \<le> 10 ^ 36 \<and> volumeDistanceScale src = 1 \<and>
    round_to_float (RT_DEFAULT_MAX cfg) = RT_DEFAULT_MAX cfg \<longrightarrow>
      mul_f32 (Finite (RT_DEFAULT_MAX cfg)) (volumeDistanceScale src) =
        Finite (RT_DEFAULT_MAX cfg)) \<and>
   (0 < f3_x (absorptionColor src) \<longrightarrow>
      ieee_x (absorption (updateMaterialParameters_body cfg app src)) =
        mul_f32 (neg_f32 (to_float32 (ln (f3_x (absorptionColor src))))) (volumeDistanceScale src)) \<and>
   (0 < f3_y (absorptionColor src) \<longrightarrow>
      ieee_y (absorption (updateMaterialParameters_body cfg app src)) =
        mul_f32 (neg_f32 (to_float32 (ln (f3_y (absorptionColor src))))) (volumeDistanceScale src)) \<and>
   (0 < f3_z (absorptionColor src) \<longrightarrow>
      ieee_z (absorption (updateMaterialParameters_body cfg app src)) =
        mul_f32 (neg_f32 (to_float32 (ln (f3_z (absorptionColor src))))) (volumeDistanceScale src)) \<and>
   (i < length (m_guiMaterialParameters app) \<longrightarrow>
      m_d_materialParameters (updateMaterialParameters cfg app) ! i =
        updateMaterialParameters_body cfg app (m_guiMaterialParameters app ! i))"
proof -
  have finite: "mul_f32 (Finite (RT_DEFAULT_MAX cfg)) (volumeDistanceScale src) =
      Finite (round_to_float (RT_DEFAULT_MAX cfg * volumeDistanceScale src))"
    if r: "\<bar>RT_DEFAULT_MAX cfg\<bar> \<le> 10 ^ 36" and s: "0 \<le> volumeDistanceScale src"
      "volumeDistanceScale src \<le> 100"
  proof -
    have "\<bar>RT_DEFAULT_MAX cfg * volumeDistanceScale src\<bar> =
        \<bar>RT_DEFAULT_MAX cfg\<bar> * volumeDistanceScale src"
      using s by (simp add: abs_mult)
    also have "\<dots> \<le> 10 ^ 36 * 100"
      using r s by (intro mult_mono) simp_all
    finally have "\<bar>RT_DEFAULT_MAX cfg * volumeDistanceScale src\<bar> \<le> 10 ^ 38" by simp
    then show ?thesis by (simp add: to_float32_finite)
  qed
  have body: "absorption (updateMaterialParameters_body cfg app src) =
      mul_f3_ieee
        (Float3_ieee
          (if 0 < f3_x (absorptionColor src) then neg_f32 (logf (f3_x (absorptionColor src)))
           else Finite (RT_DEFAULT_MAX cfg))
          (if 0 < f3_y (absorptionColor src) then neg_f32 (logf (f3_y (absorptionColor src)))
           else Finite (RT_DEFAULT_MAX cfg))
          (if 0 < f3_z (absorptionColor src) then neg_f32 (logf (f3_z (absorptionColor src)))
           else Finite (RT_DEFAULT_MAX cfg)))
        (volumeDistanceScale src)"
    by (simp add: updateMaterialParameters_body_def Let_def)
  have dev: "m_d_materialParameters (updateMaterialParameters cfg app) ! i =
        updateMaterialParameters_body cfg app (m_guiMaterialParameters app ! i)"
    if "i < length (m_guiMaterialParameters app)"
    using that by (simp add: updateMaterialParameters_def issue_def Let_def)
  show ?thesis
    unfolding body
    using finite dev by (auto simp: mul_f3_ieee_def logf_def)
qed

theorem absorption_derivation_witness:
  "f3_x (absorptionColor example_material) = 0 \<and>
   \<bar>RT_DEFAULT_MAX example_config\<bar> \<le> 10 ^ 36 \<and>
   0 \<le> volumeDistanceScale example_material \<and> volumeDistanceScale example_material \<le> 100 \<and>
   ieee_x (absorption (updateMaterialParameters_body example_config example_start example_material)) =
     Finite (2 ^ 91) \<and>
   0 < f3_y (absorptionColor example_material) \<and>
   ieee_y (absorption (updateMaterialParameters_body example_config example_start example_material)) =
     mul_f32 (neg_f32 (to_float32 (ln (3/4)))) 2 \<and>
   f3_x (absorptionColor (example_material\<lparr>volumeDistanceScale := 1\<rparr>)) = 0 \<and>
   round_to_float (RT_DEFAULT_MAX example_config) = RT_DEFAULT_MAX example_config \<and>
   ieee_x (absorption (updateMaterialParameters_body example_config example_start
       (example_material\<lparr>volumeDistanceScale := 1\<rparr>))) = Finite (RT_DEFAULT_MAX example_config) \<and>
   0 < length (m_guiMaterialParameters example_scene) \<and>
   m_d_materialParameters (updateMaterialParameters example_config example_scene) ! 0 =
     updateMaterialParameters_body example_config example_scene
       (m_guiMaterialParameters example_scene ! 0)"
proof -
  have x0: "f3_x (absorptionColor example_material) = 0"
    and y0: "0 < f3_y (absorptionColor example_material)"
    and y: "f3_y (absorptionColor example_material) = 3/4"
    and s: "volumeDistanceScale example_material = 2"
    by (simp_all add: example_material_def make_float3_def)
  have m: "RT_DEFAULT_MAX example_config = 2 ^ 90" by (simp add: example_config_def)
  have r: "\<bar>RT_DEFAULT_MAX example_config\<bar> \<le> 10 ^ 36" by (simp add: m)
  have range: "0 \<le> volumeDistanceScale example_material"
    "volumeDistanceScale example_material \<le> 100"
    by (simp_all add: s)
  have p: "RT_DEFAULT_MAX example_config * volumeDistanceScale example_material = 2 ^ 91"
    by (simp add: m s)
  have e: "round_to_float (2 ^ 91) = 2 ^ 91"
    by (rule round_to_float_power) simp
  note t = absorption_derivation [of example_material example_config example_start 0]
  from t x0 have "ieee_x (absorption (updateMaterialParameters_body example_config example_start example_material)) =
      mul_f32 (Finite (RT_DEFAULT_MAX example_config)) (volumeDistanceScale example_material)"
    by blast
  also from t r range have "\<dots> =
      Finite (round_to_float (RT_DEFAULT_MAX example_config * volumeDistanceScale example_material))"
    by blast
  also have "\<dots> = Finite (2 ^ 91)" by (simp only: p e)
  finally have x: "ieee_x (absorption (updateMaterialParameters_body example_config example_start example_material)) =
      Finite (2 ^ 91)" .
  from t y0 have "ieee_y (absorption (updateMaterialParameters_body example_config example_start example_material)) =
      mul_f32 (neg_f32 (to_float32 (ln (f3_y (absorptionColor example_material)))))
        (volumeDistanceScale example_material)"
    by blast
  then have yv: "ieee_y (absorption (updateMaterialParameters_body example_config example_start example_material)) =
      mul_f32 (neg_f32 (to_float32 (ln (3/4)))) 2"
    by (simp only: y s)
  define unit where "unit = example_material\<lparr>volumeDistanceScale := 1\<rparr>"
  have u0: "f3_x (absorptionColor unit) = 0" and us: "volumeDistanceScale unit = 1"
    unfolding unit_def by (simp_all add: x0)
  have "round_to_float (2 ^ 90) = 2 ^ 90"
    by (rule round_to_float_power) simp
  then have exact: "round_to_float (RT_DEFAULT_MAX example_config) = RT_DEFAULT_MAX example_config"
    by (simp only: m)
  note t1 = absorption_derivation [of unit example_config example_start 0]
  from t1 u0 have "ieee_x (absorption (updateMaterialParameters_body example_config example_start unit)) =
      mul_f32 (Finite (RT_DEFAULT_MAX example_config)) (volumeDistanceScale unit)"
    by blast
  also from t1 r us exact have "\<dots> = Finite (RT_DEFAULT_MAX example_config)"
    by blast
  finally have one: "ieee_x (absorption (updateMaterialParameters_body example_config example_start unit)) =
      Finite (RT_DEFAULT_MAX example_config)" .
  have mats: "0 < length (m_guiMaterialParameters example_scene)"
    by (simp add: example_scene_records(1) example_materials(1))
  note t2 = absorption_derivation [of example_material example_config example_scene 0]
  from t2 mats have dev: "m_d_materialParameters (updateMaterialParameters example_config example_scene) ! 0 =
     updateMaterialParameters_body example_config example_scene
       (m_guiMaterialParameters example_scene ! 0)"
    by blast
  from x0 r range x y0 yv u0 exact one mats dev show ?thesis
    unfolding unit_def by blast
qed

text \<open>
  With volume scale 2 the coefficient of a black channel is twice the sentinel, not the
  sentinel.
\<close>

theorem absorption_sentinel_counterexample:
  "f3_x (absorptionColor example_material) = 0 \<and>
   ieee_x (absorption (updateMaterialParameters_body example_config example_start example_material))
     \<noteq> Finite (RT_DEFAULT_MAX example_config)"
proof -
  have x0: "f3_x (absorptionColor example_material) = 0"
    and s: "volumeDistanceScale example_material = 2"
    by (simp_all add: example_material_def make_float3_def)
  have m: "RT_DEFAULT_MAX example_config = 2 ^ 90" by (simp add: example_config_def)
  have p: "(2::real) ^ 90 * 2 = 2 ^ 91" by simp
  have e: "round_to_float (2 ^ 91) = 2 ^ 91"
    by (rule round_to_float_power) simp
  have "ieee_x (absorption (updateMaterialParameters_body example_config example_start example_material)) =
      mul_f32 (Finite (RT_DEFAULT_MAX example_config)) (volumeDistanceScale example_material)"
    using x0 by (simp add: black_channel)
  also have "\<dots> = to_float32 (2 ^ 91)"
    by (simp only: m s mul_f32.simps p)
  also have "\<dots> = Finite (round_to_float (2 ^ 91))"
    by (rule to_float32_finite) simp
  also have "\<dots> = Finite (2 ^ 91)" by (simp only: e)
  finally have "ieee_x (absorption (updateMaterialParameters_body example_config example_start example_material)) =
      Finite (2 ^ 91)" .
  then show ?thesis using x0 by (simp add: m)
qed

text \<open>
  C7. Start-up with miss id 1 (constant environment) and the parallelogram light enabled,
  from the empty vectors of the constructor, gives two light definitions and
  \<^verbatim>\<open>numLights\<close> 2: the environment light at index 0 and the parallelogram light at
  index 1. The area of the parallelogram light is the length of the cross product of its
  edge vectors (here 16) and its normal is that cross product divided by the area.
\<close>

theorem constant_environment_and_parallelogram:
  assumes "m_missID app = 1" and "m_lightID app \<noteq> 0" and "m_lightDefinitions app = []"
    and "m_instances app = []" and "m_geometries app = []"
  shows "\<exists>app'. initRenderer cfg env app = Inr app' \<and>
           (let lights = m_lightDefinitions app' in
              length lights = 2 \<and>
              numLights (m_systemParameter app') = 2 \<and>
              light_type (lights ! 0) = LIGHT_ENVIRONMENT \<and>
              light_type (lights ! 1) = LIGHT_PARALLELOGRAM \<and>
              area (lights ! 1) = length_f3 (cross (vecU (lights ! 1)) (vecV (lights ! 1))) \<and>
              normal (lights ! 1) =
                div_f3 (cross (vecU (lights ! 1)) (vecV (lights ! 1))) (area (lights ! 1)) \<and>
              area (lights ! 1) = 16 \<and>
              normal (lights ! 1) = make_float3 0 (- 1) 0)"
proof -
  from initRenderer_consistent [OF assms(4,5), of cfg env]
  obtain app' where run: "initRenderer cfg env app = Inr app'"
    and lights: "m_lightDefinitions app' =
       [(light_unused LIGHT_ENVIRONMENT)\<lparr>area := 4 * pi\<rparr>, light_parallelogram]"
    and n: "numLights (m_systemParameter app') = of_nat (length (m_lightDefinitions app'))"
    using assms(1,2,3) by auto
  show ?thesis
    unfolding run Let_def lights
    using n
    by (simp add: lights light_parallelogram_fields parallelogram_cross parallelogram_area
          light_unused_def div_f3_def make_float3_def)
qed

theorem constant_environment_and_parallelogram_witness:
  "m_missID example_start = 1 \<and> m_lightID example_start \<noteq> 0 \<and>
   m_lightDefinitions example_start = [] \<and> m_instances example_start = [] \<and>
   m_geometries example_start = [] \<and>
   (case initRenderer example_config example_env example_start of
      Inl e \<Rightarrow> False
    | Inr app' \<Rightarrow>
        length (m_lightDefinitions app') = 2 \<and>
        light_type (m_lightDefinitions app' ! 0) = LIGHT_ENVIRONMENT \<and>
        light_type (m_lightDefinitions app' ! 1) = LIGHT_PARALLELOGRAM \<and>
        area (m_lightDefinitions app' ! 1) = 16)"
proof -
  have h: "m_missID example_start = 1" "m_lightID example_start \<noteq> 0"
    "m_lightDefinitions example_start = []" "m_instances example_start = []"
    "m_geometries example_start = []"
    by simp_all
  show ?thesis
    using h constant_environment_and_parallelogram [OF h, of example_config example_env]
    by (auto simp: Let_def)
qed

text \<open>
  C8. A file that opens and whose read fails after two bytes: the function does not
  return the empty vector, it ends by the exception of the failed read. The test of
  line 1453 cannot see the failed read, and nothing else in the function handles it.
\<close>

theorem readData_read_error:
  "example_files ''miss.ptx'' = Opened [47, 47] ReadError \<and>
   readData example_files ''miss.ptx'' = Inl ios_base_failure"
  by (simp add: readData_def ifstream_open_def istreambuf_copy_def example_files_def)

text \<open>
  C9. Start-up with the parallelogram light enabled and miss id 3: \<^verbatim>\<open>createLights\<close>
  appends no environment light, so the light array holds the parallelogram alone, at
  index 0, and the device is told of one light; yet both records of the last instance
  carry light index 1, because line 2085 tests the miss id against zero. The comment
  of that line gives the index 1 to the case in which an environment light occupies
  index 0. The other parts of the claim, the material index and the light index of
  every other record, are \<open>hitgroup_payload_indices\<close>.
\<close>

theorem light_index_without_environment:
  "m_lightID example_other_miss = 1 \<and> m_missID example_other_miss = 3 \<and>
   (case initRenderer example_config example_env example_other_miss of
      Inl e \<Rightarrow> False
    | Inr app' \<Rightarrow>
        m_lightDefinitions app' = [light_parallelogram] \<and>
        numLights (m_systemParameter app') = 1 \<and>
        length (m_instances app') = 6 \<and>
        lightIndex (data (m_sbtRecordGeometryInstanceData app' ! 10)) = 1 \<and>
        lightIndex (data (m_sbtRecordGeometryInstanceData app' ! 11)) = 1)"
proof -
  have s: "m_instances example_other_miss = []" "m_geometries example_other_miss = []"
    "m_lightDefinitions example_other_miss = []" "m_lightID example_other_miss = 1"
    "m_missID example_other_miss = 3"
    by (simp_all add: example_other_miss_def Application_ctor_def)
  let ?pre = "initPipeline_headers example_env
      (initPipeline_instances example_env (initMaterials example_env example_other_miss))"
  from initRenderer_consistent [OF s(1,2), of example_config example_env]
  obtain app' where run: "initRenderer example_config example_env example_other_miss = Inr app'"
    and len: "length (m_instances app') = 6"
    and lights: "m_lightDefinitions app' = [light_parallelogram]"
    and count: "numLights (m_systemParameter app') = 1"
    by (auto simp: s)
  from initRenderer_records [OF s(1,2), of example_config example_env] run
  have recs: "\<forall>k < 6.
      m_sbtRecordGeometryInstanceData app' ! (2 * k) = populated_record ?pre k False \<and>
      m_sbtRecordGeometryInstanceData app' ! (2 * k + 1) = populated_record ?pre k True"
    by (auto simp: s)
  have pre: "m_lightID ?pre = 1" "m_missID ?pre = 3" "length (m_instances ?pre) = 6"
    by (simp_all add: s length_initPipeline_instances)
  have "lightIndex (data (populated_record ?pre 5 b)) = 1" for b
    by (simp add: populated_record_def plain_record_def pre s length_initPipeline_instances)
  with recs [rule_format, of 5]
  have "lightIndex (data (m_sbtRecordGeometryInstanceData app' ! 10)) = 1"
    "lightIndex (data (m_sbtRecordGeometryInstanceData app' ! 11)) = 1"
    by simp_all
  with run len lights count s show ?thesis by simp
qed

text \<open>
  C10. A call of \<^verbatim>\<open>updateShaderBindingTable\<close> with an instance below zero or not below
  the number of instances returns the application unchanged: the host records, the device
  records and the log of device calls are the same, so nothing was synchronised or copied.
  The instance is an \<^verbatim>\<open>int\<close>; the vector holds fewer than \<open>2 ^ 63\<close> instances, as every
  vector of 80-byte elements does.
\<close>

theorem updateShaderBindingTable_outside_noop:
  assumes range: "in_int_range instance"
    and size: "length (m_instances app) < 2 ^ 63"
    and outside: "instance < 0 \<or> int (length (m_instances app)) \<le> instance"
  shows "updateShaderBindingTable instance app = Inr app"
proof -
  have "\<not> to_size_t instance < length (m_instances app)"
  proof (cases "instance < 0")
    case True
    with range have "to_size_t instance = nat (instance + 2 ^ 64)"
      by (intro to_size_t_neg) (simp_all add: in_int_range_def)
    moreover have "(2::int) ^ 63 \<le> instance + 2 ^ 64"
      using range by (simp add: in_int_range_def)
    ultimately have "2 ^ 63 \<le> to_size_t instance"
      by (simp add: le_nat_iff)
    with size show ?thesis by simp
  next
    case False
    with outside have le: "int (length (m_instances app)) \<le> instance" by simp
    from False range have "to_size_t instance = nat instance"
      by (intro to_size_t_nonneg) (simp_all add: in_int_range_def INT_MAX_def)
    with le show ?thesis by simp
  qed
  then show ?thesis by (simp add: updateShaderBindingTable_def)
qed

theorem updateShaderBindingTable_outside_noop_witness:
  "in_int_range (- 1) \<and> in_int_range 6 \<and>
   length (m_instances example_scene) < 2 ^ 63 \<and>
   ((- 1 :: int) < 0 \<or> int (length (m_instances example_scene)) \<le> - 1) \<and>
   ((6 :: int) < 0 \<or> int (length (m_instances example_scene)) \<le> 6) \<and>
   updateShaderBindingTable (- 1) example_scene = Inr example_scene \<and>
   updateShaderBindingTable 6 example_scene = Inr example_scene"
proof -
  have r: "in_int_range (- 1)" "in_int_range 6"
    by (simp_all add: in_int_range_def INT_MAX_def)
  have len: "length (m_instances example_scene) = 6"
    using example_scene_facts by simp
  then have s: "length (m_instances example_scene) < 2 ^ 63" by simp
  have o1: "(- 1 :: int) < 0 \<or> int (length (m_instances example_scene)) \<le> - 1" by simp
  have o2: "(6 :: int) < 0 \<or> int (length (m_instances example_scene)) \<le> 6"
    using len by simp
  show ?thesis
    using r s o1 o2
      updateShaderBindingTable_outside_noop [OF r(1) s o1]
      updateShaderBindingTable_outside_noop [OF r(2) s o2]
    by simp
qed

end
